theory Spec2Isabelle
  imports Main
begin

section \<open>Strings\<close>

text \<open>
  JavaScript strings are modelled as \<^typ>\<open>string\<close>, one \<^typ>\<open>char\<close> per code unit. Header
  values are byte strings (every code unit is below 256), so this covers everything the
  worker reads from a request. Case mapping is the ASCII one: \<open>toLowerCase\<close> and
  \<open>toUpperCase\<close> change the 26 letters and leave every other code unit alone. The
  allowlists of the shipped configuration are ASCII, and no code unit from 128 to 255 maps
  to an ASCII letter sequence occurring in them, so membership tests agree with
  JavaScript's on every header value.
\<close>

definition toLowerChar :: "char \<Rightarrow> char" where
  "toLowerChar c =
     (case map_of (zip ''ABCDEFGHIJKLMNOPQRSTUVWXYZ'' ''abcdefghijklmnopqrstuvwxyz'') c of
        Some d \<Rightarrow> d | None \<Rightarrow> c)"

definition toUpperChar :: "char \<Rightarrow> char" where
  "toUpperChar c =
     (case map_of (zip ''abcdefghijklmnopqrstuvwxyz'' ''ABCDEFGHIJKLMNOPQRSTUVWXYZ'') c of
        Some d \<Rightarrow> d | None \<Rightarrow> c)"

definition toLowerCase :: "string \<Rightarrow> string" where
  "toLowerCase s = map toLowerChar s"

definition toUpperCase :: "string \<Rightarrow> string" where
  "toUpperCase s = map toUpperChar s"

text \<open>
  \<open>String.prototype.trim\<close> removes white space and line terminators from both ends; among
  the code units below 256 these are TAB, LF, VT, FF, CR, SPACE and NBSP.
\<close>

definition is_ws :: "char \<Rightarrow> bool" where
  "is_ws c = (c \<in> set [CHR 0x09, CHR 0x0A, CHR 0x0B, CHR 0x0C, CHR 0x0D, CHR 0x20, CHR 0xA0])"

definition trim :: "string \<Rightarrow> string" where
  "trim s = rev (dropWhile is_ws (rev (dropWhile is_ws s)))"

text \<open>\<open>s.split(sep)\<close> for a one-character separator: the empty string splits into \<open>['']\<close>.\<close>

fun split_on :: "char \<Rightarrow> string \<Rightarrow> string list" where
  "split_on sep [] = [[]]"
| "split_on sep (c # cs) =
     (if c = sep then [] # split_on sep cs
      else (case split_on sep cs of
              [] \<Rightarrow> [[c]]
            | g # gs \<Rightarrow> (c # g) # gs))"

text \<open>\<open>xs.join(sep)\<close>.\<close>

fun join :: "string \<Rightarrow> string list \<Rightarrow> string" where
  "join sep [] = []"
| "join sep [x] = x"
| "join sep (x # y # ys) = x @ sep @ join sep (y # ys)"

text \<open>\<open>String(n)\<close> for a natural number: its decimal digits.\<close>

definition digit_char :: "nat \<Rightarrow> char" where
  "digit_char d = ''0123456789'' ! (d mod 10)"

fun string_of_nat :: "nat \<Rightarrow> string" where
  "string_of_nat n =
     (if n < 10 then [digit_char n] else string_of_nat (n div 10) @ [digit_char (n mod 10)])"

section \<open>Regular expressions\<close>

text \<open>
  The three regular expressions of the worker are written in a small pattern language and
  run by a backtracking matcher. A position is the code unit before the cursor (\<open>None\<close> at
  the start of the input) and the rest of the input; \<open>rmatch r p\<close> lists the positions at
  which a match of \<open>r\<close> starting at \<open>p\<close> can end, and \<open>regex_test\<close> is
  \<open>RegExp.prototype.test\<close>: some start position has a match.

  \<open>Bol\<close> and \<open>Eol\<close> are \<open>^\<close> and \<open>$\<close> (without the \<open>m\<close> flag), \<open>WordB\<close> is \<open>\b\<close>, \<open>Cls\<close> a
  character class, \<open>ClsPlus\<close> a class under \<open>+\<close>, and \<open>Rep lo hi r\<close> is \<open>r{lo,hi}\<close>.
\<close>

datatype rexp =
    Eps
  | Bol
  | Eol
  | WordB
  | Cls "char \<Rightarrow> bool"
  | ClsPlus "char \<Rightarrow> bool"
  | Seq rexp rexp
  | Rep nat nat rexp

type_synonym pos = "char option \<times> string"

definition is_word_char :: "char \<Rightarrow> bool" where
  "is_word_char c =
     (c \<in> set ''abcdefghijklmnopqrstuvwxyzABCDEFGHIJKLMNOPQRSTUVWXYZ0123456789_'')"

definition word_before :: "pos \<Rightarrow> bool" where
  "word_before p = (case fst p of None \<Rightarrow> False | Some c \<Rightarrow> is_word_char c)"

definition word_after :: "pos \<Rightarrow> bool" where
  "word_after p = (case snd p of [] \<Rightarrow> False | c # _ \<Rightarrow> is_word_char c)"

fun cls_plus :: "(char \<Rightarrow> bool) \<Rightarrow> pos \<Rightarrow> pos list" where
  "cls_plus f (prev, []) = []"
| "cls_plus f (prev, c # t) = (if f c then cls_plus f (Some c, t) @ [(Some c, t)] else [])"

fun rmatch_rep :: "(pos \<Rightarrow> pos list) \<Rightarrow> nat \<Rightarrow> nat \<Rightarrow> pos \<Rightarrow> pos list" where
  "rmatch_rep m 0 0 p = [p]"
| "rmatch_rep m 0 (Suc k) p = concat (map (rmatch_rep m 0 k) (m p)) @ [p]"
| "rmatch_rep m (Suc n) k p = concat (map (rmatch_rep m n k) (m p))"

primrec rmatch :: "rexp \<Rightarrow> pos \<Rightarrow> pos list" where
  "rmatch Eps p = [p]"
| "rmatch Bol p = (if fst p = None then [p] else [])"
| "rmatch Eol p = (if snd p = [] then [p] else [])"
| "rmatch WordB p = (if word_before p \<noteq> word_after p then [p] else [])"
| "rmatch (Cls f) p =
     (case snd p of [] \<Rightarrow> [] | c # t \<Rightarrow> if f c then [(Some c, t)] else [])"
| "rmatch (ClsPlus f) p = cls_plus f p"
| "rmatch (Seq a b) p = concat (map (rmatch b) (rmatch a p))"
| "rmatch (Rep lo hi r) p = rmatch_rep (rmatch r) lo (hi - lo) p"

fun search :: "rexp \<Rightarrow> pos \<Rightarrow> bool" where
  "search r (prev, []) = (rmatch r (prev, []) \<noteq> [])"
| "search r (prev, c # t) = (rmatch r (prev, c # t) \<noteq> [] \<or> search r (Some c, t))"

definition regex_test :: "rexp \<Rightarrow> string \<Rightarrow> bool" where
  "regex_test r s = search r (None, s)"

text \<open>\<open>\d\<close>, a class under the \<open>i\<close> flag, and a literal under the \<open>i\<close> flag.\<close>

definition is_digit :: "char \<Rightarrow> bool" where
  "is_digit c = (c \<in> set ''0123456789'')"

definition cls_ci :: "string \<Rightarrow> char \<Rightarrow> bool" where
  "cls_ci cs c = (toUpperChar c \<in> set (map toUpperChar cs))"

fun lit_ci :: "string \<Rightarrow> rexp" where
  "lit_ci [] = Eps"
| "lit_ci (c # cs) = Seq (Cls (cls_ci [c])) (lit_ci cs)"

text \<open>
  The languages of the patterns without assertions, used to reason about the matcher:
  \<open>rests m L\<close> says that the matcher \<open>m\<close> ends exactly after the words of \<open>L\<close>.
\<close>

primrec plain :: "rexp \<Rightarrow> bool" where
  "plain Eps = True"
| "plain Bol = False"
| "plain Eol = False"
| "plain WordB = False"
| "plain (Cls f) = True"
| "plain (ClsPlus f) = True"
| "plain (Seq a b) = (plain a \<and> plain b)"
| "plain (Rep lo hi r) = plain r"

definition conc :: "string set \<Rightarrow> string set \<Rightarrow> string set" where
  "conc A B = {u @ v | u v. u \<in> A \<and> v \<in> B}"

fun lang_rep :: "string set \<Rightarrow> nat \<Rightarrow> nat \<Rightarrow> string set" where
  "lang_rep L 0 0 = {[]}"
| "lang_rep L 0 (Suc k) = conc L (lang_rep L 0 k) \<union> {[]}"
| "lang_rep L (Suc n) k = conc L (lang_rep L n k)"

primrec lang :: "rexp \<Rightarrow> string set" where
  "lang Eps = {[]}"
| "lang Bol = {}"
| "lang Eol = {}"
| "lang WordB = {}"
| "lang (Cls f) = {[c] | c. f c}"
| "lang (ClsPlus f) = {u. u \<noteq> [] \<and> list_all f u}"
| "lang (Seq a b) = conc (lang a) (lang b)"
| "lang (Rep lo hi r) = lang_rep (lang r) lo (hi - lo)"

definition rests :: "(pos \<Rightarrow> pos list) \<Rightarrow> string set \<Rightarrow> bool" where
  "rests m L = (\<forall>p s t. (t \<in> snd ` set (m (p, s))) = (\<exists>u\<in>L. s = u @ t))"

section \<open>The IP sanitizer (utils/ip.ts)\<close>

text \<open>
  \<^verbatim>\<open>ipv4 = /^(?:\d{1,3}\.){3}\d{1,3}$/\<close> and \<^verbatim>\<open>ipv6 = /^[0-9a-f:]+$/i\<close>.
\<close>

definition ipv4 :: rexp where
  "ipv4 = Seq Bol (Seq (Seq (Rep 3 3 (Seq (Rep 1 3 (Cls is_digit)) (Cls (\<lambda>c. c = CHR ''.''))))
                            (Rep 1 3 (Cls is_digit)))
                       Eol)"

definition ipv6 :: rexp where
  "ipv6 = Seq Bol (Seq (ClsPlus (cls_ci ''0123456789abcdef:'')) Eol)"

definition validateAndCleanIP :: "string \<Rightarrow> string" where
  "validateAndCleanIP raw =
     (let cleaned = filter (\<lambda>c. c \<noteq> CHR 0x0D \<and> c \<noteq> CHR 0x0A) (trim raw);
          isValid = (regex_test ipv4 cleaned
                     \<or> (CHR '':'' \<in> set cleaned \<and> regex_test ipv6 cleaned))
      in if isValid then cleaned else ''Unknown'')"

text \<open>
  The two shapes as the specification words them: four groups of one to three digits
  separated by dots; at least one colon and nothing but hexadecimal digits and colons.
\<close>

definition digit_group :: "string \<Rightarrow> bool" where
  "digit_group g = (1 \<le> length g \<and> length g \<le> 3 \<and> list_all is_digit g)"

definition ipv4_shape :: "string \<Rightarrow> bool" where
  "ipv4_shape s =
     (let gs = split_on CHR ''.'' s in length gs = 4 \<and> list_all digit_group gs)"

definition is_hex :: "char \<Rightarrow> bool" where
  "is_hex c = (c \<in> set ''0123456789abcdefABCDEF'')"

definition ipv6_shape :: "string \<Rightarrow> bool" where
  "ipv6_shape s = (CHR '':'' \<in> set s \<and> list_all (\<lambda>c. is_hex c \<or> c = CHR '':'') s)"

definition dotted :: "string \<Rightarrow> bool" where
  "dotted s = (\<exists>a b c d. digit_group a \<and> digit_group b \<and> digit_group c \<and> digit_group d
                 \<and> s = a @ ''.'' @ b @ ''.'' @ c @ ''.'' @ d)"

section \<open>Configuration and constants (config.ts, errors.ts)\<close>

text \<open>
  \<open>config.host\<close> is a string or an array of strings; the strings \<open>*\<close> and \<open>:origin\<close> are
  the wildcard and the reflection mode. The configuration is a parameter of the model, and
  \<open>config\<close> is the value the repository ships. \<open>exposeHeaders\<close> and \<open>maxAge\<close> are tested for
  being set before use, so they are optional here.
\<close>

datatype host_config = HostString string | HostArray "string list"

record cors_config =
  host :: host_config
  allowCredentials :: bool
  methods :: "string list"
  allowHeaders :: "string list"
  exposeHeaders :: "string list option"
  maxAge :: "nat option"

definition config :: cors_config where
  "config = \<lparr> host = HostArray [''https://example.com'', ''https://example.net''],
              allowCredentials = False,
              methods = [''GET'', ''HEAD'', ''POST'', ''OPTIONS'', ''PATCH''],
              allowHeaders = [''Content-Type''],
              exposeHeaders = Some [],
              maxAge = Some 86400 \<rparr>"

definition listApi_health :: string where "listApi_health = ''/health''"
definition listApi_home :: string where "listApi_home = ''/''"
definition listApi_all_json :: string where "listApi_all_json = ''/all.json''"
definition listApi_cf_json :: string where "listApi_cf_json = ''/cf.json''"
definition listApi_headers :: string where "listApi_headers = ''/headers''"

definition METHOD_NOT_ALLOWED :: string where
  "METHOD_NOT_ALLOWED = ''METHOD_NOT_ALLOWED''"
definition ENV_PLATFORM_METADATA_MISSING :: string where
  "ENV_PLATFORM_METADATA_MISSING = ''ENV_PLATFORM_METADATA_MISSING''"
definition INTERNAL_SERVER_ERROR :: string where
  "INTERNAL_SERVER_ERROR = ''INTERNAL_SERVER_ERROR''"
definition NOT_FOUND :: string where
  "NOT_FOUND = ''NOT_FOUND''"
definition CORS_HEADER_NOT_ALLOWED :: string where
  "CORS_HEADER_NOT_ALLOWED = ''CORS_HEADER_NOT_ALLOWED''"

section \<open>Headers, requests and responses\<close>

text \<open>
  A \<open>Headers\<close> object is a map from lower-cased names to values: \<open>get\<close>, \<open>has\<close> and \<open>set\<close>
  lower-case the name they are given. Values are kept as they are set; the normalisation
  and validation the platform applies to a value (stripping surrounding white space,
  refusing NUL, CR and LF) is not modelled, and a name that occurs several times in a
  request is the single combined value that \<open>get\<close> returns.
\<close>

type_synonym headers = "string \<rightharpoonup> string"

definition hget :: "headers \<Rightarrow> string \<Rightarrow> string option" where
  "hget h name = h (toLowerCase name)"

definition hhas :: "headers \<Rightarrow> string \<Rightarrow> bool" where
  "hhas h name = (h (toLowerCase name) \<noteq> None)"

definition hset :: "headers \<Rightarrow> string \<Rightarrow> string \<Rightarrow> headers" where
  "hset h name v = h(toLowerCase name \<mapsto> v)"

text \<open>\<open>new Headers(init)\<close> for an object literal \<open>init\<close>.\<close>

definition headers_of :: "(string \<times> string) list \<Rightarrow> headers" where
  "headers_of init = foldl (\<lambda>h nv. hset h (fst nv) (snd nv)) Map.empty init"

text \<open>
  The values of the platform metadata object \<open>request.cf\<close> are primitives (numbers are
  integers, \<open>NaN\<close> or an infinity). A property of that object is data or an accessor
  that throws; the second is what the \<open>catch\<close> of the metadata route is there for.
\<close>

datatype js_value =
    VUndefined
  | VNull
  | VBool bool
  | VNum int
  | VNaN
  | VInf bool
  | VStr string

datatype cf_prop = Data js_value | ThrowingGetter

type_synonym cf_object = "(string \<times> cf_prop) list"

text \<open>
  A request carries its method, the path of its URL, its headers and the optional
  metadata object.
\<close>

record request =
  rq_method :: string
  rq_pathname :: string
  rq_headers :: headers
  rq_cf :: "cf_object option"

text \<open>
  A JSON body is kept as the value handed to \<open>JSON.stringify\<close>; the text it is serialised
  to is not modelled. \<open>JDict\<close> is an object given by a header collection.
\<close>

datatype json =
    JNull
  | JBool bool
  | JNum int
  | JStr string
  | JObj "(string \<times> json) list"
  | JDict headers

datatype resp_body = NoBody | TextBody string | JsonBody json

record response =
  status :: nat
  statusText :: string
  headers :: headers
  body :: resp_body

datatype js_error = RangeError | TypeError | AccessorError

definition bind_err :: "js_error + 'a \<Rightarrow> ('a \<Rightarrow> js_error + 'b) \<Rightarrow> js_error + 'b" where
  "bind_err m f = (case m of Inl e \<Rightarrow> Inl e | Inr x \<Rightarrow> f x)"

text \<open>
  \<open>new Response(body, {status, statusText, headers})\<close>: the constructor throws a
  \<open>RangeError\<close> for a status outside 200 to 599 and a \<open>TypeError\<close> for a body together
  with a null-body status.
\<close>

definition null_body_status :: "nat \<Rightarrow> bool" where
  "null_body_status s = (s \<in> set [101, 103, 204, 205, 304])"

definition non_null :: "resp_body \<Rightarrow> bool" where
  "non_null b = (case b of NoBody \<Rightarrow> False | _ \<Rightarrow> True)"

definition new_Response ::
    "resp_body \<Rightarrow> nat \<Rightarrow> string \<Rightarrow> headers \<Rightarrow> js_error + response" where
  "new_Response b st txt h =
     (if st < 200 \<or> 599 < st then Inl RangeError
      else if non_null b \<and> null_body_status st then Inl TypeError
      else Inr \<lparr> status = st, statusText = txt, headers = h, body = b \<rparr>)"

section \<open>Response builders (utils/responses.ts)\<close>

definition JSON_HEADERS :: "(string \<times> string) list" where
  "JSON_HEADERS =
     [(''content-type'', ''application/json;charset=UTF-8''),
      (''cache-control'', ''no-store''),
      (''x-content-type-options'', ''nosniff'')]"

text \<open>The optional \<open>extra\<close> fields of \<open>errorResponse\<close> are passed nowhere in the repository.\<close>

definition errorResponse :: "nat \<Rightarrow> string \<Rightarrow> string \<Rightarrow> js_error + response" where
  "errorResponse st code message =
     new_Response (JsonBody (JObj [(''code'', JStr code), (''message'', JStr message)]))
       st [] (headers_of JSON_HEADERS)"

definition successResponse :: "json \<Rightarrow> nat \<Rightarrow> js_error + response" where
  "successResponse data st = new_Response (JsonBody data) st [] (headers_of JSON_HEADERS)"

definition noContentResponse :: "(string \<times> string) list \<Rightarrow> js_error + response" where
  "noContentResponse init =
     (let h0 = headers_of init;
          h1 = (if \<not> hhas h0 ''cache-control'' then hset h0 ''cache-control'' ''no-store''
                else h0);
          h2 = (if \<not> hhas h1 ''x-content-type-options''
                then hset h1 ''x-content-type-options'' ''nosniff'' else h1)
      in new_Response NoBody 204 [] h2)"

section \<open>The CORS engine (cors.ts)\<close>

text \<open>
  \<open>if (!originHeader)\<close> and its siblings test a \<open>string | null\<close> for truthiness: \<open>null\<close> and
  the empty string are both falsy.
\<close>

definition truthy :: "string option \<Rightarrow> bool" where
  "truthy v = (case v of None \<Rightarrow> False | Some s \<Rightarrow> s \<noteq> [])"

definition resolveAllowOrigin :: "cors_config \<Rightarrow> request \<Rightarrow> string option" where
  "resolveAllowOrigin cfg request =
     (case hget (rq_headers request) ''Origin'' of
        None \<Rightarrow> None
      | Some originHeader \<Rightarrow>
          if originHeader = [] then None
          else (case host cfg of
                  HostArray hostConfig \<Rightarrow>
                    if originHeader \<in> set hostConfig then Some originHeader else None
                | HostString hostConfig \<Rightarrow>
                    if hostConfig = ''*'' then Some ''*''
                    else if hostConfig = '':origin'' then Some originHeader
                    else if originHeader = hostConfig then Some hostConfig else None))"

text \<open>\<^verbatim>\<open>/\bOrigin\b/i\<close>.\<close>

definition origin_word :: rexp where
  "origin_word = Seq WordB (Seq (lit_ci ''Origin'') WordB)"

text \<open>The \<open>Vary\<close> block of \<open>applyCors\<close>.\<close>

definition varyOrigin :: "headers \<Rightarrow> headers" where
  "varyOrigin h =
     (case hget h ''Vary'' of
        Some vary \<Rightarrow>
          if vary \<noteq> [] then
            (if \<not> regex_test origin_word vary then hset h ''Vary'' (vary @ '', Origin'') else h)
          else hset h ''Vary'' ''Origin''
      | None \<Rightarrow> hset h ''Vary'' ''Origin'')"

text \<open>The body of \<open>if (origin) { ... }\<close> in \<open>applyCors\<close>.\<close>

definition originHeaders :: "cors_config \<Rightarrow> string \<Rightarrow> headers \<Rightarrow> headers" where
  "originHeaders cfg origin h =
     (let h1 = (if \<not> hhas h ''Access-Control-Allow-Origin''
                then hset h ''Access-Control-Allow-Origin'' origin else h);
          h2 = (if allowCredentials cfg \<and> origin \<noteq> ''*''
                then hset h1 ''Access-Control-Allow-Credentials'' ''true'' else h1)
      in if origin \<noteq> ''*'' then varyOrigin h2 else h2)"

text \<open>The informational headers that \<open>applyCors\<close> sets for every response.\<close>

definition infoHeaders :: "cors_config \<Rightarrow> headers \<Rightarrow> headers" where
  "infoHeaders cfg h =
     (let h1 = (if \<not> hhas h ''Access-Control-Allow-Methods''
                then hset h ''Access-Control-Allow-Methods'' (join '', '' (methods cfg)) else h);
          h2 = (if \<not> hhas h1 ''Access-Control-Allow-Headers''
                then hset h1 ''Access-Control-Allow-Headers'' (join '', '' (allowHeaders cfg))
                else h1)
      in case exposeHeaders cfg of
           None \<Rightarrow> h2
         | Some [] \<Rightarrow> h2
         | Some (e # es) \<Rightarrow> hset h2 ''Access-Control-Expose-Headers'' (join '', '' (e # es)))"

definition corsHeaders :: "cors_config \<Rightarrow> request \<Rightarrow> headers \<Rightarrow> headers" where
  "corsHeaders cfg request h =
     (let origin = resolveAllowOrigin cfg request;
          h1 = (if truthy origin then originHeaders cfg (the origin) h else h)
      in infoHeaders cfg h1)"

definition applyCors :: "cors_config \<Rightarrow> request \<Rightarrow> response \<Rightarrow> js_error + response" where
  "applyCors cfg request resp =
     new_Response (body resp) (status resp) (statusText resp)
       (corsHeaders cfg request (headers resp))"

text \<open>The loop over the requested headers: the first one that is not allowed, if any.\<close>

fun first_disallowed :: "string list \<Rightarrow> string list \<Rightarrow> string option" where
  "first_disallowed allowedLower [] = None"
| "first_disallowed allowedLower (h # hs) =
     (if toLowerCase h \<notin> set allowedLower then Some h
      else first_disallowed allowedLower hs)"

text \<open>The end of \<open>buildPreflightResponse\<close>, from the \<open>Access-Control-Max-Age\<close> header on.\<close>

definition preflightFinish ::
    "cors_config \<Rightarrow> string option \<Rightarrow> headers \<Rightarrow> js_error + response" where
  "preflightFinish cfg origin h =
     (let h1 = hset h ''Access-Control-Max-Age''
                 (string_of_nat (case maxAge cfg of Some n \<Rightarrow> n | None \<Rightarrow> 86400));
          h2 = (if allowCredentials cfg \<and> truthy origin \<and> origin \<noteq> Some ''*''
                then hset h1 ''Access-Control-Allow-Credentials'' ''true'' else h1);
          h3 = (case exposeHeaders cfg of
                  None \<Rightarrow> h2
                | Some [] \<Rightarrow> h2
                | Some (e # es) \<Rightarrow>
                    hset h2 ''Access-Control-Expose-Headers'' (join '', '' (e # es)));
          h4 = (if truthy origin \<and> origin \<noteq> Some ''*'' then hset h3 ''Vary'' ''Origin'' else h3)
      in new_Response NoBody 204 [] h4)"

text \<open>\<open>buildPreflightResponse\<close> after the requested method has been accepted.\<close>

definition preflightAllow ::
    "cors_config \<Rightarrow> request \<Rightarrow> string option \<Rightarrow> headers \<Rightarrow> js_error + response" where
  "preflightAllow cfg request origin h =
     (let h1 = hset h ''Access-Control-Allow-Methods'' (join '', '' (methods cfg));
          reqHeaders = hget (rq_headers request) ''Access-Control-Request-Headers'';
          allowedLower = map toLowerCase (allowHeaders cfg)
      in if truthy reqHeaders then
           (let requested = filter (\<lambda>h. h \<noteq> []) (map trim (split_on CHR '','' (the reqHeaders)))
            in case first_disallowed allowedLower requested of
                 Some h \<Rightarrow>
                   errorResponse 400 CORS_HEADER_NOT_ALLOWED (''CORS header not allowed: '' @ h)
               | None \<Rightarrow>
                   preflightFinish cfg origin
                     (hset h1 ''Access-Control-Allow-Headers'' (join '', '' requested)))
         else preflightFinish cfg origin
                (hset h1 ''Access-Control-Allow-Headers'' (join '', '' (allowHeaders cfg))))"

definition buildPreflightResponse :: "cors_config \<Rightarrow> request \<Rightarrow> js_error + response" where
  "buildPreflightResponse cfg request =
     (let origin = resolveAllowOrigin cfg request;
          h = (if truthy origin then hset Map.empty ''Access-Control-Allow-Origin'' (the origin)
               else Map.empty);
          acrm = hget (rq_headers request) ''Access-Control-Request-Method''
      in if truthy acrm \<and> toUpperCase (the acrm) \<notin> set (methods cfg)
         then errorResponse 405 METHOD_NOT_ALLOWED (''Method '' @ the acrm @ '' not allowed'')
         else preflightAllow cfg request origin h)"

section \<open>Routes (routes/home.ts, routes/all_json.ts)\<close>

text \<open>
  \<open>getHome\<close> first tests \<open>!request\<close>; a request object is never falsy, so that branch is
  not part of the model.
\<close>

definition getHome :: "request \<Rightarrow> js_error + response" where
  "getHome request =
     (let raw = (case hget (rq_headers request) ''CF-Connecting-IP'' of
                   Some v \<Rightarrow> v | None \<Rightarrow> []);
          v = validateAndCleanIP raw
      in new_Response (TextBody v) 200 []
           (headers_of [(''content-type'', ''text/plain; charset=utf-8''),
                        (''cache-control'', ''no-store''),
                        (''x-content-type-options'', ''nosniff'')]))"

definition truthy_value :: "js_value \<Rightarrow> bool" where
  "truthy_value v =
     (case v of
        VUndefined \<Rightarrow> False
      | VNull \<Rightarrow> False
      | VBool b \<Rightarrow> b
      | VNum n \<Rightarrow> n \<noteq> 0
      | VNaN \<Rightarrow> False
      | VInf _ \<Rightarrow> True
      | VStr s \<Rightarrow> s \<noteq> [])"

text \<open>\<open>v || 'N/A'\<close>.\<close>

definition or_na :: "js_value \<Rightarrow> js_value" where
  "or_na v = (if truthy_value v then v else VStr ''N/A'')"

text \<open>Reading a property of the metadata object: a missing property is \<open>undefined\<close>.\<close>

definition cf_get :: "cf_object \<Rightarrow> string \<Rightarrow> js_error + js_value" where
  "cf_get obj name =
     (case map_of obj name of
        None \<Rightarrow> Inr VUndefined
      | Some (Data v) \<Rightarrow> Inr v
      | Some ThrowingGetter \<Rightarrow> Inl AccessorError)"

record IPInfo =
  ip :: string
  asn :: string
  as_org :: js_value
  country :: js_value
  region :: js_value
  city :: js_value
  latitude :: js_value
  longitude :: js_value
  timezone :: js_value
  encoding :: js_value
  user_agent :: string

definition MAX_UA_LEN :: nat where
  "MAX_UA_LEN = 512"

text \<open>
  The horizontal ellipsis U+2026, one code unit in JavaScript. It is above 255, so it is
  written here by its three UTF-8 bytes; nothing measures a string after it is appended.
\<close>

definition ellipsis :: string where
  "ellipsis = [CHR 0xE2, CHR 0x80, CHR 0xA6]"

definition userAgentOf :: "request \<Rightarrow> string" where
  "userAgentOf request =
     (let h = hget (rq_headers request) ''User-Agent'';
          userAgent = (if truthy h then the h else ''N/A'')
      in if length userAgent > MAX_UA_LEN then take MAX_UA_LEN userAgent @ ellipsis
         else userAgent)"

definition asnOf :: "js_value \<Rightarrow> string" where
  "asnOf asnCandidate =
     (case asnCandidate of
        VNum n \<Rightarrow> if n > 0 then ''AS'' @ string_of_nat (nat n) else ''N/A''
      | _ \<Rightarrow> ''N/A'')"

text \<open>
  The part of the \<open>try\<close> block that builds the \<open>IPInfo\<close> object; the properties of
  \<open>request.cf\<close> are read in the order of the source.
\<close>

definition getAllJson_ipInfo :: "request \<Rightarrow> cf_object \<Rightarrow> js_error + IPInfo" where
  "getAllJson_ipInfo request cf =
     (let rawIP = (case hget (rq_headers request) ''CF-Connecting-IP'' of
                     Some v \<Rightarrow> v | None \<Rightarrow> []);
          cleanedIP = validateAndCleanIP rawIP;
          isValidIP = (cleanedIP \<noteq> ''Unknown'');
          ipv = (if isValidIP then cleanedIP else ''Unknown'');
          userAgent = userAgentOf request
      in bind_err (cf_get cf ''asn'') (\<lambda>asnCandidate.
         bind_err (cf_get cf ''asOrganization'') (\<lambda>asOrganization.
         bind_err (cf_get cf ''country'') (\<lambda>cfCountry.
         bind_err (cf_get cf ''region'') (\<lambda>cfRegion.
         bind_err (cf_get cf ''city'') (\<lambda>cfCity.
         bind_err (cf_get cf ''latitude'') (\<lambda>cfLatitude.
         bind_err (cf_get cf ''longitude'') (\<lambda>cfLongitude.
         bind_err (cf_get cf ''timezone'') (\<lambda>cfTimezone.
         bind_err (cf_get cf ''clientAcceptEncoding'') (\<lambda>clientAcceptEncoding.
           Inr \<lparr> ip = ipv,
                 asn = asnOf asnCandidate,
                 as_org = or_na asOrganization,
                 country = or_na cfCountry,
                 region = or_na cfRegion,
                 city = or_na cfCity,
                 latitude = or_na cfLatitude,
                 longitude = or_na cfLongitude,
                 timezone = or_na cfTimezone,
                 encoding = or_na clientAcceptEncoding,
                 user_agent = userAgent \<rparr>))))))))))"

text \<open>
  What \<open>JSON.stringify\<close> makes of a value: a property whose value is \<open>undefined\<close> is left
  out, and \<open>NaN\<close> and the infinities become \<open>null\<close>.
\<close>

definition json_of_value :: "js_value \<Rightarrow> json option" where
  "json_of_value v =
     (case v of
        VUndefined \<Rightarrow> None
      | VNull \<Rightarrow> Some JNull
      | VBool b \<Rightarrow> Some (JBool b)
      | VNum n \<Rightarrow> Some (JNum n)
      | VNaN \<Rightarrow> Some JNull
      | VInf _ \<Rightarrow> Some JNull
      | VStr s \<Rightarrow> Some (JStr s))"

fun json_fields :: "(string \<times> js_value) list \<Rightarrow> (string \<times> json) list" where
  "json_fields [] = []"
| "json_fields ((k, v) # kvs) =
     (case json_of_value v of
        None \<Rightarrow> json_fields kvs
      | Some j \<Rightarrow> (k, j) # json_fields kvs)"

definition json_of_IPInfo :: "IPInfo \<Rightarrow> json" where
  "json_of_IPInfo info =
     JObj ([(''ip'', JStr (ip info)), (''asn'', JStr (asn info))]
           @ json_fields [(''as_org'', as_org info), (''country'', country info),
                          (''region'', region info), (''city'', city info),
                          (''latitude'', latitude info), (''longitude'', longitude info),
                          (''timezone'', timezone info), (''encoding'', encoding info)]
           @ [(''user_agent'', JStr (user_agent info))])"

text \<open>The member of a JSON object with a given name.\<close>

definition json_field :: "json \<Rightarrow> string \<Rightarrow> json option" where
  "json_field j k = (case j of JObj fs \<Rightarrow> map_of fs k | _ \<Rightarrow> None)"

text \<open>The \<open>try\<close> block of the metadata route, and the route with its \<open>catch\<close>.\<close>

definition getAllJson_try :: "request \<Rightarrow> js_error + response" where
  "getAllJson_try request =
     (case rq_cf request of
        None \<Rightarrow> errorResponse 500 ENV_PLATFORM_METADATA_MISSING ''Platform metadata unavailable''
      | Some cf \<Rightarrow>
          if rq_method request = ''HEAD''
          then new_Response NoBody 200 [] (headers_of JSON_HEADERS)
          else bind_err (getAllJson_ipInfo request cf)
                 (\<lambda>ipInfo. successResponse (json_of_IPInfo ipInfo) 200))"

definition getAllJson :: "request \<Rightarrow> js_error + response" where
  "getAllJson request =
     (if rq_method request \<noteq> ''GET'' \<and> rq_method request \<noteq> ''HEAD''
      then errorResponse 405 METHOD_NOT_ALLOWED ''Method not allowed''
      else (case getAllJson_try request of
              Inl e \<Rightarrow> errorResponse 500 INTERNAL_SERVER_ERROR ''Internal Server Error''
            | Inr r \<Rightarrow> Inr r))"

section \<open>Dispatcher and entry point (handler.ts, worker.ts)\<close>

text \<open>\<open>JSON.stringify\<close> of the metadata object reads every property.\<close>

fun stringify_cf :: "cf_object \<Rightarrow> js_error + (string \<times> json) list" where
  "stringify_cf [] = Inr []"
| "stringify_cf ((k, p) # ps) =
     (case p of
        ThrowingGetter \<Rightarrow> Inl AccessorError
      | Data v \<Rightarrow>
          bind_err (stringify_cf ps)
            (\<lambda>fs. Inr (case json_of_value v of None \<Rightarrow> fs | Some j \<Rightarrow> (k, j) # fs)))"

definition handleRequest :: "cors_config \<Rightarrow> request \<Rightarrow> js_error + response" where
  "handleRequest cfg request =
     (let requestPath = rq_pathname request
      in if rq_method request \<notin> set (methods cfg)
         then errorResponse 405 METHOD_NOT_ALLOWED ''Method not allowed''
         else if requestPath = listApi_health
           then successResponse (JObj [(''msg'', JStr ''Server up and running'')]) 200
         else if requestPath = listApi_home then getHome request
         else if requestPath = listApi_all_json then getAllJson request
         else if requestPath = listApi_cf_json
           then (case rq_cf request of
                   None \<Rightarrow> successResponse (JObj []) 200
                 | Some cf \<Rightarrow>
                     bind_err (stringify_cf cf) (\<lambda>fs. successResponse (JObj fs) 200))
         else if requestPath = listApi_headers
           then successResponse (JDict (rq_headers request)) 200
         else errorResponse 404 NOT_FOUND ''Request path not defined'')"

definition handleOptions :: "cors_config \<Rightarrow> request \<Rightarrow> js_error + response" where
  "handleOptions cfg request =
     (if hget (rq_headers request) ''Origin'' \<noteq> None
         \<and> hget (rq_headers request) ''Access-Control-Request-Method'' \<noteq> None
         \<and> hget (rq_headers request) ''Access-Control-Request-Headers'' \<noteq> None
      then buildPreflightResponse cfg request
      else noContentResponse [(''Allow'', join '', '' (methods cfg))])"

definition fetch :: "cors_config \<Rightarrow> request \<Rightarrow> js_error + response" where
  "fetch cfg request =
     (let isMethodAllowed = (rq_method request \<in> set (methods cfg))
      in if \<not> isMethodAllowed
         then bind_err (new_Response NoBody 405 ''Method Not Allowed'' Map.empty)
                (applyCors cfg request)
         else if rq_method request = ''OPTIONS'' then handleOptions cfg request
         else bind_err (handleRequest cfg request) (applyCors cfg request))"

section \<open>The origin policy of the specification\<close>

text \<open>
  The specification names four policies. \<open>policy_of\<close> reads them off \<open>config.host\<close>: an
  array is an allowlist, the string \<open>*\<close> is the wildcard, \<open>:origin\<close> is reflection, and any
  other string is a fixed origin.
\<close>

datatype origin_policy = Any | Reflect | Fixed string | Allowlist "string list"

definition policy_of :: "host_config \<Rightarrow> origin_policy" where
  "policy_of hc =
     (case hc of
        HostArray xs \<Rightarrow> Allowlist xs
      | HostString s \<Rightarrow>
          if s = ''*'' then Any else if s = '':origin'' then Reflect else Fixed s)"

text \<open>
  Whether a \<open>Vary\<close> value lists a field name: the value is a comma-separated list, and
  field names compare without regard to case.
\<close>

definition vary_lists :: "string \<Rightarrow> string \<Rightarrow> bool" where
  "vary_lists v name =
     (toLowerCase name \<in> set (map (\<lambda>t. toLowerCase (trim t)) (split_on CHR '','' v)))"

text \<open>Whether a header name is one of the \<open>Access-Control-*\<close> family.\<close>

definition is_access_control :: "string \<Rightarrow> bool" where
  "is_access_control name = (take 15 (toLowerCase name) = ''access-control-'')"

section \<open>Observing results\<close>

text \<open>
  What a caller sees of a result: the status, a header, the body, a member of the JSON
  body. A thrown error shows none of them.
\<close>

definition result_status :: "js_error + response \<Rightarrow> nat option" where
  "result_status res = (case res of Inl e \<Rightarrow> None | Inr r \<Rightarrow> Some (status r))"

definition result_header :: "js_error + response \<Rightarrow> string \<Rightarrow> string option" where
  "result_header res name = (case res of Inl e \<Rightarrow> None | Inr r \<Rightarrow> hget (headers r) name)"

definition result_body :: "js_error + response \<Rightarrow> resp_body option" where
  "result_body res = (case res of Inl e \<Rightarrow> None | Inr r \<Rightarrow> Some (body r))"

definition result_field :: "js_error + response \<Rightarrow> string \<Rightarrow> json option" where
  "result_field res k =
     (case res of
        Inr r \<Rightarrow> (case body r of JsonBody j \<Rightarrow> json_field j k | _ \<Rightarrow> None)
      | Inl e \<Rightarrow> None)"

text \<open>The body of an error response.\<close>

definition error_body :: "string \<Rightarrow> string \<Rightarrow> resp_body" where
  "error_body code message = JsonBody (JObj [(''code'', JStr code), (''message'', JStr message)])"

text \<open>
  The list an \<open>Access-Control-Request-Headers\<close> value asks for: split on commas, entries
  trimmed, empty entries dropped; and membership in the header allowlist without regard
  to case.
\<close>

definition requested_headers :: "string \<Rightarrow> string list" where
  "requested_headers v = filter (\<lambda>h. h \<noteq> []) (map trim (split_on CHR '','' v))"

definition header_allowed :: "cors_config \<Rightarrow> string \<Rightarrow> bool" where
  "header_allowed cfg h = (toLowerCase h \<in> set (map toLowerCase (allowHeaders cfg)))"

text \<open>
  The requested method passes the check of \<open>buildPreflightResponse\<close>: the header is absent
  or empty, or its upper-cased value is in the method allowlist.
\<close>

definition requested_method_ok :: "cors_config \<Rightarrow> request \<Rightarrow> bool" where
  "requested_method_ok cfg request =
     (case hget (rq_headers request) ''Access-Control-Request-Method'' of
        None \<Rightarrow> True
      | Some m \<Rightarrow> m = [] \<or> toUpperCase m \<in> set (methods cfg))"

text \<open>Requests and responses used as examples.\<close>

definition sample_request :: "string \<Rightarrow> string \<Rightarrow> (string \<times> string) list \<Rightarrow> request" where
  "sample_request m p hs =
     \<lparr> rq_method = m, rq_pathname = p, rq_headers = headers_of hs, rq_cf = None \<rparr>"

definition sample_response :: "nat \<Rightarrow> (string \<times> string) list \<Rightarrow> response" where
  "sample_response st hs =
     \<lparr> status = st, statusText = [], headers = headers_of hs, body = TextBody ''ok'' \<rparr>"

text \<open>
  The \<open>Vary\<close> value that the \<open>Vary\<close> block of \<open>applyCors\<close> leaves, as a function of the
  value it finds.
\<close>

definition vary_value :: "string option \<Rightarrow> string" where
  "vary_value old =
     (case old of
        None \<Rightarrow> ''Origin''
      | Some vary \<Rightarrow>
          if vary = [] then ''Origin''
          else if regex_test origin_word vary then vary else vary @ '', Origin'')"

text \<open>
  Each block of \<open>applyCors\<close> reads and writes one header at a time, so the value it leaves
  under a name depends on the value it finds under that name only: \<open>origin_value\<close> for
  the block guarded by \<open>if (origin)\<close>, \<open>info_value\<close> for the informational headers.
\<close>

definition origin_value :: "cors_config \<Rightarrow> string \<Rightarrow> string \<Rightarrow> string option \<Rightarrow> string option" where
  "origin_value cfg origin k old =
     (if k = ''vary'' then (if origin \<noteq> ''*'' then Some (vary_value old) else old)
      else if k = ''access-control-allow-credentials''
        then (if allowCredentials cfg \<and> origin \<noteq> ''*'' then Some ''true'' else old)
      else if k = ''access-control-allow-origin''
        then Some (case old of None \<Rightarrow> origin | Some v \<Rightarrow> v)
      else old)"

definition info_value :: "cors_config \<Rightarrow> string \<Rightarrow> string option \<Rightarrow> string option" where
  "info_value cfg k old =
     (if k = ''access-control-expose-headers''
        then (case exposeHeaders cfg of
                None \<Rightarrow> old
              | Some [] \<Rightarrow> old
              | Some (e # es) \<Rightarrow> Some (join '', '' (e # es)))
      else if k = ''access-control-allow-headers''
        then Some (case old of None \<Rightarrow> join '', '' (allowHeaders cfg) | Some v \<Rightarrow> v)
      else if k = ''access-control-allow-methods''
        then Some (case old of None \<Rightarrow> join '', '' (methods cfg) | Some v \<Rightarrow> v)
      else old)"

text \<open>
  The three headers that make an \<open>OPTIONS\<close> request a preflight for \<open>handleOptions\<close>, and
  the headers of its answer to any other \<open>OPTIONS\<close> request.
\<close>

definition preflight_headers_present :: "request \<Rightarrow> bool" where
  "preflight_headers_present request =
     (hget (rq_headers request) ''Origin'' \<noteq> None
      \<and> hget (rq_headers request) ''Access-Control-Request-Method'' \<noteq> None
      \<and> hget (rq_headers request) ''Access-Control-Request-Headers'' \<noteq> None)"

definition bare_options_headers :: "cors_config \<Rightarrow> headers" where
  "bare_options_headers cfg =
     [''allow'' \<mapsto> join '', '' (methods cfg),
      ''cache-control'' \<mapsto> ''no-store'',
      ''x-content-type-options'' \<mapsto> ''nosniff'']"

text \<open>
  The properties of the metadata object that the metadata route reads; the object is
  readable when none of them throws. \<open>user_agent_text\<close> is the \<open>user_agent\<close> member as a
  function of the \<open>User-Agent\<close> header.
\<close>

definition metadata_fields :: "string list" where
  "metadata_fields =
     [''asn'', ''asOrganization'', ''country'', ''region'', ''city'', ''latitude'',
      ''longitude'', ''timezone'', ''clientAcceptEncoding'']"

definition metadata_readable :: "cf_object \<Rightarrow> bool" where
  "metadata_readable cf = list_all (\<lambda>n. map_of cf n \<noteq> Some ThrowingGetter) metadata_fields"

definition user_agent_text :: "string option \<Rightarrow> string" where
  "user_agent_text h =
     (case h of
        None \<Rightarrow> ''N/A''
      | Some ua \<Rightarrow>
          if ua = [] then ''N/A''
          else if length ua \<le> 512 then ua else take 512 ua @ ellipsis)"

section \<open>Properties of the matcher\<close>

lemma cls_plus_rests: "(t \<in> snd ` set (cls_plus f (p, s))) = (\<exists>u. u \<noteq> [] \<and> list_all f u \<and> s = u @ t)"
proof (induction s arbitrary: p)
  case Nil
  then show ?case by simp
next
  case (Cons c s)
  show ?case
  proof (cases "f c")
    case False
    then show ?thesis by (auto simp: Cons_eq_append_conv)
  next
    case True
    have "(t \<in> snd ` set (cls_plus f (p, c # s))) = (t = s \<or> t \<in> snd ` set (cls_plus f (Some c, s)))"
      using True by auto
    also have "\<dots> = (t = s \<or> (\<exists>u. u \<noteq> [] \<and> list_all f u \<and> s = u @ t))"
      by (simp only: Cons.IH)
    also have "\<dots> = (\<exists>u. u \<noteq> [] \<and> list_all f u \<and> c # s = u @ t)"
    proof
      assume "t = s \<or> (\<exists>u. u \<noteq> [] \<and> list_all f u \<and> s = u @ t)"
      then show "\<exists>u. u \<noteq> [] \<and> list_all f u \<and> c # s = u @ t"
      proof
        assume "t = s"
        then have "[c] \<noteq> [] \<and> list_all f [c] \<and> c # s = [c] @ t" using True by simp
        then show ?thesis by blast
      next
        assume "\<exists>u. u \<noteq> [] \<and> list_all f u \<and> s = u @ t"
        then obtain u where "u \<noteq> []" "list_all f u" "s = u @ t" by blast
        then have "c # u \<noteq> [] \<and> list_all f (c # u) \<and> c # s = (c # u) @ t" using True by simp
        then show ?thesis by blast
      qed
    next
      assume "\<exists>u. u \<noteq> [] \<and> list_all f u \<and> c # s = u @ t"
      then obtain u where u: "u \<noteq> []" "list_all f u" "c # s = u @ t" by blast
      then obtain u' where u': "u = c # u'" by (cases u) auto
      show "t = s \<or> (\<exists>u. u \<noteq> [] \<and> list_all f u \<and> s = u @ t)"
      proof (cases "u' = []")
        case True
        then show ?thesis using u u' by simp
      next
        case False
        then show ?thesis using u u' by auto
      qed
    qed
    finally show ?thesis .
  qed
qed

lemma rests_seq:
  assumes "rests ma A" and "rests mb B"
  shows "rests (\<lambda>p. concat (map mb (ma p))) (conc A B)"
  unfolding rests_def
proof (intro allI)
  fix p s t
  have "(t \<in> snd ` set (concat (map mb (ma (p, s))))) = (\<exists>q\<in>set (ma (p, s)). t \<in> snd ` set (mb q))"
    by auto
  also have "\<dots> = (\<exists>s'\<in>snd ` set (ma (p, s)). \<exists>v\<in>B. s' = v @ t)"
  proof -
    have "\<And>q. (t \<in> snd ` set (mb q)) = (\<exists>v\<in>B. snd q = v @ t)"
      using assms(2) unfolding rests_def by (metis prod.collapse)
    then show ?thesis by auto
  qed
  also have "\<dots> = (\<exists>s'. (\<exists>u\<in>A. s = u @ s') \<and> (\<exists>v\<in>B. s' = v @ t))"
  proof -
    have "\<And>s'. (s' \<in> snd ` set (ma (p, s))) = (\<exists>u\<in>A. s = u @ s')"
      using assms(1) unfolding rests_def by blast
    then show ?thesis unfolding Bex_def by presburger
  qed
  also have "\<dots> = (\<exists>w\<in>conc A B. s = w @ t)"
  proof
    assume "\<exists>s'. (\<exists>u\<in>A. s = u @ s') \<and> (\<exists>v\<in>B. s' = v @ t)"
    then obtain u v where "u \<in> A" "v \<in> B" "s = u @ v @ t" by blast
    then have "u @ v \<in> conc A B \<and> s = (u @ v) @ t" unfolding conc_def by auto
    then show "\<exists>w\<in>conc A B. s = w @ t" by blast
  next
    assume "\<exists>w\<in>conc A B. s = w @ t"
    then obtain u v where uv: "u \<in> A" "v \<in> B" "s = (u @ v) @ t" unfolding conc_def by blast
    then have "(\<exists>u'\<in>A. s = u' @ (v @ t)) \<and> (\<exists>v'\<in>B. v @ t = v' @ t)" by auto
    then show "\<exists>s'. (\<exists>u\<in>A. s = u @ s') \<and> (\<exists>v\<in>B. s' = v @ t)" by blast
  qed
  finally show "(t \<in> snd ` set (concat (map mb (ma (p, s))))) = (\<exists>w\<in>conc A B. s = w @ t)" .
qed

lemma rests_eps: "rests (\<lambda>p. [p]) {[]}"
  by (auto simp: rests_def)

lemma rests_or_eps:
  assumes "rests m L"
  shows "rests (\<lambda>p. m p @ [p]) (L \<union> {[]})"
  using assms unfolding rests_def by auto

lemma rests_rep:
  assumes "rests m L"
  shows "rests (rmatch_rep m lo k) (lang_rep L lo k)"
proof (induction lo)
  case 0
  show ?case
  proof (induction k)
    case 0
    have "rmatch_rep m 0 0 = (\<lambda>p. [p])" by (rule ext) simp
    then show ?case using rests_eps by simp
  next
    case (Suc k)
    have "rmatch_rep m 0 (Suc k) = (\<lambda>p. concat (map (rmatch_rep m 0 k) (m p)) @ [p])"
      by (rule ext) simp
    then show ?case using rests_or_eps [OF rests_seq [OF assms Suc]] by simp
  qed
next
  case (Suc n)
  have "rmatch_rep m (Suc n) k = (\<lambda>p. concat (map (rmatch_rep m n k) (m p)))"
    by (rule ext) simp
  then show ?case using rests_seq [OF assms Suc] by simp
qed

lemma rests_cls: "rests (rmatch (Cls f)) {[c] | c. f c}"
  unfolding rests_def
proof (intro allI)
  fix p s t
  show "(t \<in> snd ` set (rmatch (Cls f) (p, s))) = (\<exists>u\<in>{[c] |c. f c}. s = u @ t)"
    by (cases s) auto
qed

lemma rmatch_lang: "plain r \<Longrightarrow> rests (rmatch r) (lang r)"
proof (induction r)
  case Eps
  have "rmatch Eps = (\<lambda>p. [p])" by (rule ext) simp
  then show ?case using rests_eps by simp
next
  case (Cls f)
  show ?case unfolding lang.simps by (rule rests_cls)
next
  case (ClsPlus f)
  show ?case unfolding rests_def using cls_plus_rests by simp
next
  case (Seq a b)
  have "rmatch (Seq a b) = (\<lambda>p. concat (map (rmatch b) (rmatch a p)))" by (rule ext) simp
  then show ?case using rests_seq [of "rmatch a" "lang a" "rmatch b" "lang b"] Seq by simp
next
  case (Rep lo hi r)
  have "rmatch (Rep lo hi r) = rmatch_rep (rmatch r) lo (hi - lo)" by (rule ext) simp
  then show ?case using rests_rep [of "rmatch r" "lang r" lo "hi - lo"] Rep by simp
qed simp_all

lemma search_bol: "search (Seq Bol r) (Some c, s) = False"
  by (induction s arbitrary: c) simp_all

lemma anchored_test:
  assumes "plain r"
  shows "regex_test (Seq Bol (Seq r Eol)) s = (s \<in> lang r)"
proof -
  have "regex_test (Seq Bol (Seq r Eol)) s = (rmatch (Seq Bol (Seq r Eol)) (None, s) \<noteq> [])"
    unfolding regex_test_def by (cases s) (simp_all add: search_bol)
  also have "\<dots> = (\<exists>q\<in>set (rmatch r (None, s)). snd q = [])"
    by auto
  also have "\<dots> = ([] \<in> snd ` set (rmatch r (None, s)))"
    by force
  also have "\<dots> = (s \<in> lang r)"
    using rmatch_lang [OF assms] unfolding rests_def by simp
  finally show ?thesis .
qed

lemma split_on_nosep: "sep \<notin> set a \<Longrightarrow> split_on sep a = [a]"
  by (induction a) auto

lemma split_on_app: "sep \<notin> set a \<Longrightarrow> split_on sep (a @ sep # t) = a # split_on sep t"
  by (induction a) auto

lemma split_on_nonempty: "split_on sep s \<noteq> []"
  by (induction s) (auto split: list.splits)

lemma join_split_on: "join [sep] (split_on sep s) = s"
proof (induction s)
  case Nil
  then show ?case by simp
next
  case (Cons c s)
  obtain g gs where g: "split_on sep s = g # gs"
    using split_on_nonempty [of sep s] by (cases "split_on sep s") auto
  show ?case
  proof (cases "c = sep")
    case True
    then show ?thesis using Cons g by simp
  next
    case False
    then show ?thesis using Cons g by (cases gs) auto
  qed
qed

lemma conc_iff: "(w \<in> conc A B) = (\<exists>u v. w = u @ v \<and> u \<in> A \<and> v \<in> B)"
  unfolding conc_def by blast

lemma conc_assoc: "conc (conc A B) C = conc A (conc B C)"
proof (rule set_eqI)
  fix w
  show "(w \<in> conc (conc A B) C) = (w \<in> conc A (conc B C))"
  proof
    assume "w \<in> conc (conc A B) C"
    then obtain a b c where "w = (a @ b) @ c" "a \<in> A" "b \<in> B" "c \<in> C"
      unfolding conc_iff by blast
    then have "w = a @ (b @ c) \<and> a \<in> A \<and> b @ c \<in> conc B C" unfolding conc_iff by auto
    then show "w \<in> conc A (conc B C)" unfolding conc_iff [of w] by blast
  next
    assume "w \<in> conc A (conc B C)"
    then obtain a b c where "w = a @ (b @ c)" "a \<in> A" "b \<in> B" "c \<in> C"
      unfolding conc_iff by blast
    then have "w = (a @ b) @ c \<and> a @ b \<in> conc A B \<and> c \<in> C" unfolding conc_iff by auto
    then show "w \<in> conc (conc A B) C" unfolding conc_iff [of w] by blast
  qed
qed

lemma conc_eps: "conc A {[]} = A"
  unfolding conc_def by simp

lemma conc_cls_iff: "(w \<in> conc {[c] |c. f c} B) = (\<exists>c v. w = c # v \<and> f c \<and> v \<in> B)"
proof
  assume "w \<in> conc {[c] |c. f c} B"
  then obtain u v where "w = u @ v" "u \<in> {[c] |c. f c}" "v \<in> B" unfolding conc_iff by blast
  then show "\<exists>c v. w = c # v \<and> f c \<and> v \<in> B" by auto
next
  assume "\<exists>c v. w = c # v \<and> f c \<and> v \<in> B"
  then obtain c v where "w = [c] @ v" "f c" "v \<in> B" by auto
  then have "w = [c] @ v \<and> [c] \<in> {[c] |c. f c} \<and> v \<in> B" by blast
  then show "w \<in> conc {[c] |c. f c} B" unfolding conc_iff by blast
qed

lemma digit_rep:
  "(g \<in> lang_rep {[c] |c. is_digit c} (Suc 0) (Suc (Suc 0))) = digit_group g"
proof
  assume "g \<in> lang_rep {[c] |c. is_digit c} (Suc 0) (Suc (Suc 0))"
  then show "digit_group g"
    by (auto simp: conc_cls_iff digit_group_def)
next
  assume a: "digit_group g"
  then consider x where "g = [x]" | x y where "g = [x, y]" | x y z where "g = [x, y, z]"
    unfolding digit_group_def
    by (cases g; cases "tl g"; cases "tl (tl g)"; cases "tl (tl (tl g))") auto
  then show "g \<in> lang_rep {[c] |c. is_digit c} (Suc 0) (Suc (Suc 0))"
  proof cases
    case 1
    then show ?thesis using a by (simp add: conc_cls_iff digit_group_def)
  next
    case 2
    then show ?thesis using a by (simp add: conc_cls_iff digit_group_def)
  next
    case 3
    then show ?thesis using a by (simp add: conc_cls_iff digit_group_def)
  qed
qed

lemma digit_lang: "(g \<in> lang (Rep 1 3 (Cls is_digit))) = digit_group g"
proof -
  have "lang (Rep 1 3 (Cls is_digit)) = lang_rep {[c] |c. is_digit c} (Suc 0) (Suc (Suc 0))"
    by (simp add: numeral_2_eq_2)
  then show ?thesis using digit_rep by simp
qed

lemma group_dot_iff:
  "(w \<in> conc (conc {g. digit_group g} {''.''}) B) =
   (\<exists>a v. digit_group a \<and> v \<in> B \<and> w = a @ ''.'' @ v)"
proof
  assume "w \<in> conc (conc {g. digit_group g} {''.''}) B"
  then obtain u v where uv: "w = u @ v" "u \<in> conc {g. digit_group g} {''.''}" "v \<in> B"
    unfolding conc_iff [of w] by blast
  then obtain a where "u = a @ ''.''" "digit_group a" unfolding conc_iff by blast
  then have "digit_group a \<and> v \<in> B \<and> w = a @ ''.'' @ v" using uv by simp
  then show "\<exists>a v. digit_group a \<and> v \<in> B \<and> w = a @ ''.'' @ v" by blast
next
  assume "\<exists>a v. digit_group a \<and> v \<in> B \<and> w = a @ ''.'' @ v"
  then obtain a v where av: "digit_group a" "v \<in> B" "w = a @ ''.'' @ v" by blast
  have "a @ ''.'' \<in> conc {g. digit_group g} {''.''}" unfolding conc_iff using av(1) by blast
  moreover have "w = (a @ ''.'') @ v" using av(3) by simp
  ultimately show "w \<in> conc (conc {g. digit_group g} {''.''}) B"
    unfolding conc_iff [of w] using av(2) by blast
qed

lemma ipv4_lang:
  "(s \<in> lang (Seq (Rep 3 3 (Seq (Rep 1 3 (Cls is_digit)) (Cls (\<lambda>c. c = CHR ''.''))))
                 (Rep 1 3 (Cls is_digit)))) = dotted s"
proof -
  let ?G = "{g. digit_group g}"
  let ?X = "conc ?G {''.''}"
  have d: "lang (Rep 1 3 (Cls is_digit)) = ?G" using digit_lang by blast
  have x: "lang (Seq (Rep 1 3 (Cls is_digit)) (Cls (\<lambda>c. c = CHR ''.''))) = ?X"
    unfolding lang.simps(7) d by simp
  have r: "lang (Rep 3 3 (Seq (Rep 1 3 (Cls is_digit)) (Cls (\<lambda>c. c = CHR ''.'')))) =
           conc ?X (conc ?X (conc ?X {[]}))"
    unfolding lang.simps(8) x by (simp add: numeral_3_eq_3)
  have "(s \<in> conc ?X (conc ?X (conc ?X (conc {[]} ?G)))) = dotted s"
    unfolding group_dot_iff dotted_def by (simp add: conc_def) blast
  then show ?thesis unfolding lang.simps(7) r d conc_assoc .
qed

lemma dot_not_digit: "\<not> is_digit CHR ''.''"
  by (simp add: is_digit_def)

lemma digit_group_nodot: "digit_group g \<Longrightarrow> CHR ''.'' \<notin> set g"
proof
  assume "digit_group g" and "CHR ''.'' \<in> set g"
  then have "is_digit CHR ''.''" by (simp add: digit_group_def list_all_iff)
  then show False using dot_not_digit by simp
qed

lemma length4: "length gs = 4 \<Longrightarrow> \<exists>a b c d. gs = [a, b, c, d]"
proof -
  assume "length gs = 4"
  then have "length gs = Suc (Suc (Suc (Suc 0)))" by simp
  then show ?thesis by (auto simp: length_Suc_conv)
qed

lemma dotted_shape: "dotted s = ipv4_shape s"
proof
  assume "dotted s"
  then obtain a b c d where g: "digit_group a" "digit_group b" "digit_group c" "digit_group d"
    and s: "s = a @ CHR ''.'' # b @ CHR ''.'' # c @ CHR ''.'' # d"
    unfolding dotted_def by auto
  have "split_on CHR ''.'' s = [a, b, c, d]"
    unfolding s using g by (simp add: split_on_app split_on_nosep digit_group_nodot)
  then show "ipv4_shape s" using g by (simp add: ipv4_shape_def)
next
  assume a: "ipv4_shape s"
  then have "length (split_on CHR ''.'' s) = 4" by (simp add: ipv4_shape_def Let_def)
  then obtain a b c d where gs: "split_on CHR ''.'' s = [a, b, c, d]"
    using length4 by blast
  then have g: "digit_group a" "digit_group b" "digit_group c" "digit_group d"
    using a by (simp_all add: ipv4_shape_def)
  have "s = join ''.'' [a, b, c, d]" using join_split_on [of "CHR ''.''" s] gs by simp
  then have "s = a @ ''.'' @ b @ ''.'' @ c @ ''.'' @ d" by simp
  then show "dotted s" unfolding dotted_def using g by blast
qed

lemma ipv4_test: "regex_test ipv4 s = ipv4_shape s"
proof -
  have p: "plain (Seq (Rep 3 3 (Seq (Rep 1 3 (Cls is_digit)) (Cls (\<lambda>c. c = CHR ''.''))))
                      (Rep 1 3 (Cls is_digit)))" by simp
  have "regex_test ipv4 s =
        (s \<in> lang (Seq (Rep 3 3 (Seq (Rep 1 3 (Cls is_digit)) (Cls (\<lambda>c. c = CHR ''.''))))
                      (Rep 1 3 (Cls is_digit))))"
    unfolding ipv4_def by (rule anchored_test [OF p])
  also have "\<dots> = dotted s" by (rule ipv4_lang)
  also have "\<dots> = ipv4_shape s" by (rule dotted_shape)
  finally show ?thesis .
qed

lemma hex_class: "cls_ci ''0123456789abcdef:'' c = (is_hex c \<or> c = CHR '':'')"
  unfolding cls_ci_def is_hex_def toUpperChar_def
  by (simp split: if_splits)

lemma ipv6_test:
  "(CHR '':'' \<in> set s \<and> regex_test ipv6 s) = ipv6_shape s"
proof -
  have "regex_test ipv6 s = (s \<in> lang (ClsPlus (cls_ci ''0123456789abcdef:'')))"
    unfolding ipv6_def by (rule anchored_test) simp
  also have "\<dots> = (s \<noteq> [] \<and> list_all (\<lambda>c. is_hex c \<or> c = CHR '':'') s)"
  proof -
    have "cls_ci ''0123456789abcdef:'' = (\<lambda>c. is_hex c \<or> c = CHR '':'')"
      by (rule ext) (rule hex_class)
    then show ?thesis by simp
  qed
  finally show ?thesis unfolding ipv6_shape_def by auto
qed

section \<open>The IP sanitizer\<close>

text \<open>
  C9. For every input string the sanitizer trims surrounding white space, removes every CR
  and LF, and returns the cleaned string if it has the IPv4 digit-count shape (four groups
  of one to three digits separated by dots, no range check on the groups) or if it contains
  a colon and consists of hexadecimal digits and colons only; every other input gives
  \<open>Unknown\<close>.
\<close>

theorem validateAndCleanIP_shapes:
  "validateAndCleanIP raw =
     (let cleaned = filter (\<lambda>c. c \<noteq> CHR 0x0D \<and> c \<noteq> CHR 0x0A) (trim raw)
      in if ipv4_shape cleaned \<or> ipv6_shape cleaned then cleaned else ''Unknown'')"
  unfolding validateAndCleanIP_def Let_def ipv4_test ipv6_test ..

theorem validateAndCleanIP_shapes_witness:
  "validateAndCleanIP ''999.999.999.999'' = ''999.999.999.999''
   \<and> validateAndCleanIP (''::1'' @ [CHR 0x0D, CHR 0x0A]) = ''::1''
   \<and> validateAndCleanIP [] = ''Unknown''
   \<and> validateAndCleanIP ''not an address'' = ''Unknown''"
proof -
  have a: "validateAndCleanIP ''999.999.999.999'' = ''999.999.999.999''"
    using validateAndCleanIP_shapes [of "''999.999.999.999''"]
    by (simp add: trim_def is_ws_def ipv4_shape_def digit_group_def is_digit_def)
  have b: "validateAndCleanIP (''::1'' @ [CHR 0x0D, CHR 0x0A]) = ''::1''"
    using validateAndCleanIP_shapes [of "''::1'' @ [CHR 0x0D, CHR 0x0A]"]
    by (simp add: trim_def is_ws_def ipv4_shape_def ipv6_shape_def digit_group_def
        is_digit_def is_hex_def)
  have c: "validateAndCleanIP [] = ''Unknown''"
    using validateAndCleanIP_shapes [of "[]"]
    by (simp add: trim_def ipv4_shape_def ipv6_shape_def)
  have d: "validateAndCleanIP ''not an address'' = ''Unknown''"
    using validateAndCleanIP_shapes [of "''not an address''"]
    by (simp add: trim_def is_ws_def ipv4_shape_def ipv6_shape_def digit_group_def
        is_digit_def is_hex_def)
  show ?thesis using a b c d by simp
qed

section \<open>Headers and response builders\<close>

lemma lower_names [simp]:
  "toLowerCase ''Origin'' = ''origin''"
  "toLowerCase ''Vary'' = ''vary''"
  "toLowerCase ''Allow'' = ''allow''"
  "toLowerCase ''Access-Control-Allow-Origin'' = ''access-control-allow-origin''"
  "toLowerCase ''Access-Control-Allow-Credentials'' = ''access-control-allow-credentials''"
  "toLowerCase ''Access-Control-Allow-Methods'' = ''access-control-allow-methods''"
  "toLowerCase ''Access-Control-Allow-Headers'' = ''access-control-allow-headers''"
  "toLowerCase ''Access-Control-Expose-Headers'' = ''access-control-expose-headers''"
  "toLowerCase ''Access-Control-Max-Age'' = ''access-control-max-age''"
  "toLowerCase ''Access-Control-Request-Method'' = ''access-control-request-method''"
  "toLowerCase ''Access-Control-Request-Headers'' = ''access-control-request-headers''"
  "toLowerCase ''CF-Connecting-IP'' = ''cf-connecting-ip''"
  "toLowerCase ''User-Agent'' = ''user-agent''"
  "toLowerCase ''content-type'' = ''content-type''"
  "toLowerCase ''cache-control'' = ''cache-control''"
  "toLowerCase ''x-content-type-options'' = ''x-content-type-options''"
  by (simp_all add: toLowerCase_def toLowerChar_def)

lemma json_headers_map:
  "headers_of JSON_HEADERS =
     [''content-type'' \<mapsto> ''application/json;charset=UTF-8'',
      ''cache-control'' \<mapsto> ''no-store'',
      ''x-content-type-options'' \<mapsto> ''nosniff'']"
  by (simp add: headers_of_def JSON_HEADERS_def hset_def)

lemma new_Response_Inr:
  "new_Response b st txt h = Inr r \<Longrightarrow>
     status r = st \<and> statusText r = txt \<and> headers r = h \<and> body r = b"
  by (auto simp: new_Response_def split: if_splits)

lemma errorResponse_ok:
  "200 \<le> st \<Longrightarrow> st \<le> 599 \<Longrightarrow> \<not> null_body_status st \<Longrightarrow>
   errorResponse st code message =
     Inr \<lparr> status = st, statusText = [], headers = headers_of JSON_HEADERS,
           body = error_body code message \<rparr>"
  by (simp add: errorResponse_def new_Response_def error_body_def)

lemma null_body_status_simps [simp]:
  "\<not> null_body_status 200" "\<not> null_body_status 400" "\<not> null_body_status 404"
  "\<not> null_body_status 405" "\<not> null_body_status 500" "null_body_status 204"
  by (simp_all add: null_body_status_def)

lemmas eval_defs = sample_request_def headers_of_def hget_def hset_def hhas_def truthy_def
  config_def buildPreflightResponse_def preflightAllow_def preflightFinish_def
  resolveAllowOrigin_def new_Response_def non_null_def errorResponse_def
  toUpperCase_def toUpperChar_def toLowerCase_def toLowerChar_def trim_def is_ws_def
  first_disallowed.simps Let_def digit_char_def

section \<open>Resolving the allowed origin\<close>

text \<open>
  C1. \<open>resolveAllowOrigin\<close> returns nothing when the \<open>Origin\<close> header is absent or empty.
  For a non-empty \<open>Origin\<close> it returns the wildcard \<open>*\<close> under the policy \<open>Any\<close>, the
  incoming value under \<open>Reflect\<close>, the configured origin under \<open>Fixed\<close> when the header
  equals it and nothing otherwise, and the incoming value under \<open>Allowlist\<close> when it is a
  member of the list and nothing otherwise. Every comparison is equality of strings.
\<close>

theorem resolveAllowOrigin_policy:
  "resolveAllowOrigin cfg req =
     (case hget (rq_headers req) ''Origin'' of
        None \<Rightarrow> None
      | Some origin \<Rightarrow>
          if origin = [] then None
          else (case policy_of (host cfg) of
                  Any \<Rightarrow> Some ''*''
                | Reflect \<Rightarrow> Some origin
                | Fixed f \<Rightarrow> if origin = f then Some f else None
                | Allowlist xs \<Rightarrow> if origin \<in> set xs then Some origin else None))"
  by (simp add: resolveAllowOrigin_def policy_of_def split: option.splits host_config.splits)

theorem resolveAllowOrigin_policy_witness:
  "resolveAllowOrigin config
     (sample_request ''GET'' ''/'' [(''Origin'', ''https://example.com'')])
     = Some ''https://example.com''
   \<and> resolveAllowOrigin config
     (sample_request ''GET'' ''/'' [(''Origin'', ''https://sub.example.com'')]) = None
   \<and> resolveAllowOrigin config (sample_request ''GET'' ''/'' []) = None
   \<and> resolveAllowOrigin (config\<lparr>host := HostString ''*''\<rparr>)
     (sample_request ''GET'' ''/'' [(''Origin'', ''https://a.test'')]) = Some ''*''
   \<and> resolveAllowOrigin (config\<lparr>host := HostString '':origin''\<rparr>)
     (sample_request ''GET'' ''/'' [(''Origin'', ''https://a.test'')]) = Some ''https://a.test''
   \<and> resolveAllowOrigin (config\<lparr>host := HostString ''https://a.test''\<rparr>)
     (sample_request ''GET'' ''/'' [(''Origin'', ''https://a.test'')]) = Some ''https://a.test''
   \<and> resolveAllowOrigin (config\<lparr>host := HostString ''https://a.test''\<rparr>)
     (sample_request ''GET'' ''/'' [(''Origin'', ''https://A.test'')]) = None"
proof -
  note ev = policy_of_def config_def sample_request_def headers_of_def hget_def hset_def
  have a: "resolveAllowOrigin config
     (sample_request ''GET'' ''/'' [(''Origin'', ''https://example.com'')])
     = Some ''https://example.com''"
    using resolveAllowOrigin_policy
      [of config "sample_request ''GET'' ''/'' [(''Origin'', ''https://example.com'')]"]
    by (simp add: ev)
  have b: "resolveAllowOrigin config
     (sample_request ''GET'' ''/'' [(''Origin'', ''https://sub.example.com'')]) = None"
    using resolveAllowOrigin_policy
      [of config "sample_request ''GET'' ''/'' [(''Origin'', ''https://sub.example.com'')]"]
    by (simp add: ev)
  have c: "resolveAllowOrigin config (sample_request ''GET'' ''/'' []) = None"
    using resolveAllowOrigin_policy [of config "sample_request ''GET'' ''/'' []"]
    by (simp add: ev)
  have d: "resolveAllowOrigin (config\<lparr>host := HostString ''*''\<rparr>)
     (sample_request ''GET'' ''/'' [(''Origin'', ''https://a.test'')]) = Some ''*''"
    using resolveAllowOrigin_policy
      [of "config\<lparr>host := HostString ''*''\<rparr>"
          "sample_request ''GET'' ''/'' [(''Origin'', ''https://a.test'')]"]
    by (simp add: ev)
  have e: "resolveAllowOrigin (config\<lparr>host := HostString '':origin''\<rparr>)
     (sample_request ''GET'' ''/'' [(''Origin'', ''https://a.test'')]) = Some ''https://a.test''"
    using resolveAllowOrigin_policy
      [of "config\<lparr>host := HostString '':origin''\<rparr>"
          "sample_request ''GET'' ''/'' [(''Origin'', ''https://a.test'')]"]
    by (simp add: ev)
  have f: "resolveAllowOrigin (config\<lparr>host := HostString ''https://a.test''\<rparr>)
     (sample_request ''GET'' ''/'' [(''Origin'', ''https://a.test'')]) = Some ''https://a.test''"
    using resolveAllowOrigin_policy
      [of "config\<lparr>host := HostString ''https://a.test''\<rparr>"
          "sample_request ''GET'' ''/'' [(''Origin'', ''https://a.test'')]"]
    by (simp add: ev)
  have g: "resolveAllowOrigin (config\<lparr>host := HostString ''https://a.test''\<rparr>)
     (sample_request ''GET'' ''/'' [(''Origin'', ''https://A.test'')]) = None"
    using resolveAllowOrigin_policy
      [of "config\<lparr>host := HostString ''https://a.test''\<rparr>"
          "sample_request ''GET'' ''/'' [(''Origin'', ''https://A.test'')]"]
    by (simp add: ev)
  show ?thesis using a b c d e f g by simp
qed

text \<open>
  The claim as first worded gives \<open>*\<close> under \<open>Any\<close> whenever \<open>Origin\<close> is present. An
  \<open>Origin\<close> header with an empty value is present and resolves to nothing.
\<close>

theorem resolveAllowOrigin_empty_origin_counterexample:
  "policy_of (host (config\<lparr>host := HostString ''*''\<rparr>)) = Any
   \<and> hget (rq_headers (sample_request ''GET'' ''/'' [(''Origin'', [])])) ''Origin'' = Some []
   \<and> resolveAllowOrigin (config\<lparr>host := HostString ''*''\<rparr>)
        (sample_request ''GET'' ''/'' [(''Origin'', [])]) = None"
  by (simp add: policy_of_def config_def sample_request_def headers_of_def hget_def hset_def
      resolveAllowOrigin_def)

section \<open>Preflight responses\<close>

lemma preflightFinish_result:
  "\<exists>r. preflightFinish cfg origin h = Inr r \<and> status r = 204 \<and> body r = NoBody
       \<and> headers r ''access-control-allow-headers'' = h ''access-control-allow-headers''
       \<and> headers r ''access-control-allow-methods'' = h ''access-control-allow-methods''
       \<and> headers r ''access-control-allow-origin'' = h ''access-control-allow-origin''"
  by (simp add: preflightFinish_def new_Response_def non_null_def hset_def Let_def
      split: option.splits list.splits)

lemma first_disallowed_Some:
  "first_disallowed al (pre @ bad # post) = Some bad"
  if "\<forall>h\<in>set pre. toLowerCase h \<in> set al" and "toLowerCase bad \<notin> set al"
  using that by (induction pre) auto

lemma first_disallowed_None:
  "first_disallowed al hs = None" if "\<forall>h\<in>set hs. toLowerCase h \<in> set al"
  using that by (induction hs) auto

lemma result_simps [simp]:
  "result_status (Inr r) = Some (status r)"
  "result_header (Inr r) name = hget (headers r) name"
  "result_body (Inr r) = Some (body r)"
  "result_status (Inl e) = None"
  "result_header (Inl e) name = None"
  "result_body (Inl e) = None"
  by (simp_all add: result_status_def result_header_def result_body_def)

lemma json_headers_none:
  "hget (headers_of JSON_HEADERS) ''Access-Control-Allow-Origin'' = None"
  "hget (headers_of JSON_HEADERS) ''Vary'' = None"
  by (simp_all add: json_headers_map hget_def)

text \<open>
  C3. If the \<open>Access-Control-Request-Method\<close> header is present and not empty and its
  upper-cased value is not in the method allowlist, \<open>buildPreflightResponse\<close> returns the
  405 JSON error with code \<open>METHOD_NOT_ALLOWED\<close>; its headers are the fixed JSON headers,
  with no \<open>Access-Control-Allow-Origin\<close> and no \<open>Vary\<close>.
\<close>

theorem preflight_method_not_allowed:
  assumes "hget (rq_headers req) ''Access-Control-Request-Method'' = Some m"
    and "m \<noteq> []"
    and "toUpperCase m \<notin> set (methods cfg)"
  shows "buildPreflightResponse cfg req =
           Inr \<lparr> status = 405, statusText = [], headers = headers_of JSON_HEADERS,
                 body = error_body METHOD_NOT_ALLOWED (''Method '' @ m @ '' not allowed'') \<rparr>
         \<and> result_header (buildPreflightResponse cfg req) ''Access-Control-Allow-Origin'' = None
         \<and> result_header (buildPreflightResponse cfg req) ''Vary'' = None"
proof -
  have "buildPreflightResponse cfg req =
          errorResponse 405 METHOD_NOT_ALLOWED (''Method '' @ m @ '' not allowed'')"
    using assms by (simp add: buildPreflightResponse_def truthy_def Let_def)
  then have r: "buildPreflightResponse cfg req =
           Inr \<lparr> status = 405, statusText = [], headers = headers_of JSON_HEADERS,
                 body = error_body METHOD_NOT_ALLOWED (''Method '' @ m @ '' not allowed'') \<rparr>"
    by (simp add: errorResponse_ok)
  show ?thesis unfolding r by (simp add: json_headers_none)
qed

theorem preflight_method_not_allowed_witness:
  "hget (rq_headers (sample_request ''OPTIONS'' ''/''
          [(''Origin'', ''https://example.com''),
           (''Access-Control-Request-Method'', ''DELETE''),
           (''Access-Control-Request-Headers'', ''Content-Type'')]))
      ''Access-Control-Request-Method'' = Some ''DELETE''
   \<and> toUpperCase ''DELETE'' \<notin> set (methods config)
   \<and> result_status (buildPreflightResponse config (sample_request ''OPTIONS'' ''/''
          [(''Origin'', ''https://example.com''),
           (''Access-Control-Request-Method'', ''DELETE''),
           (''Access-Control-Request-Headers'', ''Content-Type'')])) = Some 405
   \<and> result_field (buildPreflightResponse config (sample_request ''OPTIONS'' ''/''
          [(''Origin'', ''https://example.com''),
           (''Access-Control-Request-Method'', ''DELETE''),
           (''Access-Control-Request-Headers'', ''Content-Type'')])) ''code''
        = Some (JStr ''METHOD_NOT_ALLOWED'')
   \<and> result_header (buildPreflightResponse config (sample_request ''OPTIONS'' ''/''
          [(''Origin'', ''https://example.com''),
           (''Access-Control-Request-Method'', ''DELETE''),
           (''Access-Control-Request-Headers'', ''Content-Type'')]))
        ''Access-Control-Allow-Origin'' = None
   \<and> result_header (buildPreflightResponse config (sample_request ''OPTIONS'' ''/''
          [(''Origin'', ''https://example.com''),
           (''Access-Control-Request-Method'', ''DELETE''),
           (''Access-Control-Request-Headers'', ''Content-Type'')])) ''Vary'' = None"
proof -
  let ?r = "sample_request ''OPTIONS'' ''/''
          [(''Origin'', ''https://example.com''),
           (''Access-Control-Request-Method'', ''DELETE''),
           (''Access-Control-Request-Headers'', ''Content-Type'')]"
  have h1: "hget (rq_headers ?r) ''Access-Control-Request-Method'' = Some ''DELETE''"
    by (simp add: sample_request_def headers_of_def hget_def hset_def)
  have h2: "''DELETE'' \<noteq> []" by simp
  have h3: "toUpperCase ''DELETE'' \<notin> set (methods config)"
    by (simp add: toUpperCase_def toUpperChar_def config_def)
  show ?thesis
    using preflight_method_not_allowed [OF h1 h2 h3] h1 h3
    by (simp add: result_field_def error_body_def json_field_def METHOD_NOT_ALLOWED_def
        json_headers_none)
qed

text \<open>
  The claim as first worded rejects every present header whose upper-cased value is not
  allowed. A present header with an empty value is not in the allowlist and is let through.
\<close>

theorem preflight_empty_method_counterexample:
  "hget (rq_headers (sample_request ''OPTIONS'' ''/''
          [(''Origin'', ''https://example.com''),
           (''Access-Control-Request-Method'', []),
           (''Access-Control-Request-Headers'', ''Content-Type'')]))
      ''Access-Control-Request-Method'' = Some []
   \<and> toUpperCase [] \<notin> set (methods config)
   \<and> result_status (buildPreflightResponse config (sample_request ''OPTIONS'' ''/''
          [(''Origin'', ''https://example.com''),
           (''Access-Control-Request-Method'', []),
           (''Access-Control-Request-Headers'', ''Content-Type'')])) = Some 204"
  by (simp add: eval_defs)

lemma preflight_ok_allow:
  assumes "requested_method_ok cfg req"
  shows "buildPreflightResponse cfg req =
           preflightAllow cfg req (resolveAllowOrigin cfg req)
             (if truthy (resolveAllowOrigin cfg req)
              then hset Map.empty ''Access-Control-Allow-Origin'' (the (resolveAllowOrigin cfg req))
              else Map.empty)"
  using assms
  by (auto simp: buildPreflightResponse_def requested_method_ok_def truthy_def Let_def
      split: option.splits)

text \<open>
  C4. Once the requested method has passed, a present and non-empty
  \<open>Access-Control-Request-Headers\<close> value is split on commas, its entries trimmed and the
  empty ones dropped. The first entry that is not in the header allowlist (compared
  without regard to case) gives the 400 JSON error with code \<open>CORS_HEADER_NOT_ALLOWED\<close>
  naming that entry. If every entry is allowed the response is a 204 whose
  \<open>Access-Control-Allow-Headers\<close> is the requested list joined with a comma and a space. If
  the header is absent or empty, the 204 advertises the whole allowlist.
\<close>

theorem preflight_requested_headers:
  assumes "requested_method_ok cfg req"
  shows "(hget (rq_headers req) ''Access-Control-Request-Headers'' = Some v \<and> v \<noteq> []
            \<and> requested_headers v = pre @ bad # post
            \<and> (\<forall>h\<in>set pre. header_allowed cfg h) \<and> \<not> header_allowed cfg bad
          \<longrightarrow> buildPreflightResponse cfg req =
                Inr \<lparr> status = 400, statusText = [], headers = headers_of JSON_HEADERS,
                      body = error_body CORS_HEADER_NOT_ALLOWED
                               (''CORS header not allowed: '' @ bad) \<rparr>)
       \<and> (hget (rq_headers req) ''Access-Control-Request-Headers'' = Some v \<and> v \<noteq> []
            \<and> (\<forall>h\<in>set (requested_headers v). header_allowed cfg h)
          \<longrightarrow> result_status (buildPreflightResponse cfg req) = Some 204
              \<and> result_header (buildPreflightResponse cfg req) ''Access-Control-Allow-Headers''
                  = Some (join '', '' (requested_headers v)))
       \<and> (hget (rq_headers req) ''Access-Control-Request-Headers'' = None
            \<or> hget (rq_headers req) ''Access-Control-Request-Headers'' = Some []
          \<longrightarrow> result_status (buildPreflightResponse cfg req) = Some 204
              \<and> result_header (buildPreflightResponse cfg req) ''Access-Control-Allow-Headers''
                  = Some (join '', '' (allowHeaders cfg)))"
proof (intro conjI impI)
  let ?o = "resolveAllowOrigin cfg req"
  let ?h = "if truthy ?o then hset Map.empty ''Access-Control-Allow-Origin'' (the ?o)
            else Map.empty"
  note bp = preflight_ok_allow [OF assms]
  {
    assume a: "hget (rq_headers req) ''Access-Control-Request-Headers'' = Some v \<and> v \<noteq> []
            \<and> requested_headers v = pre @ bad # post
            \<and> (\<forall>h\<in>set pre. header_allowed cfg h) \<and> \<not> header_allowed cfg bad"
    then have fd: "first_disallowed (map toLowerCase (allowHeaders cfg)) (requested_headers v)
                     = Some bad"
      using first_disallowed_Some [of pre "map toLowerCase (allowHeaders cfg)" bad post]
      by (simp add: header_allowed_def)
    have "preflightAllow cfg req ?o ?h =
            errorResponse 400 CORS_HEADER_NOT_ALLOWED (''CORS header not allowed: '' @ bad)"
      using a fd
      by (simp add: preflightAllow_def truthy_def Let_def requested_headers_def)
    then show "buildPreflightResponse cfg req =
                Inr \<lparr> status = 400, statusText = [], headers = headers_of JSON_HEADERS,
                      body = error_body CORS_HEADER_NOT_ALLOWED
                               (''CORS header not allowed: '' @ bad) \<rparr>"
      unfolding bp by (simp add: errorResponse_ok)
  }
  {
    assume a: "hget (rq_headers req) ''Access-Control-Request-Headers'' = Some v \<and> v \<noteq> []
            \<and> (\<forall>h\<in>set (requested_headers v). header_allowed cfg h)"
    then have fd: "first_disallowed (map toLowerCase (allowHeaders cfg)) (requested_headers v)
                     = None"
      using first_disallowed_None [of "requested_headers v" "map toLowerCase (allowHeaders cfg)"]
      by (simp add: header_allowed_def)
    let ?h2 = "hset (hset ?h ''Access-Control-Allow-Methods'' (join '', '' (methods cfg)))
                 ''Access-Control-Allow-Headers'' (join '', '' (requested_headers v))"
    have pa: "preflightAllow cfg req ?o ?h = preflightFinish cfg ?o ?h2"
      using a fd
      by (simp add: preflightAllow_def truthy_def Let_def requested_headers_def)
    obtain r where r: "preflightFinish cfg ?o ?h2 = Inr r" "status r = 204"
      "headers r ''access-control-allow-headers'' = ?h2 ''access-control-allow-headers''"
      using preflightFinish_result [of cfg ?o ?h2] by blast
    show "result_status (buildPreflightResponse cfg req) = Some 204"
      unfolding bp pa r(1) using r(2) by simp
    show "result_header (buildPreflightResponse cfg req) ''Access-Control-Allow-Headers''
            = Some (join '', '' (requested_headers v))"
      unfolding bp pa r(1) using r(3) by (simp add: hget_def hset_def)
  }
  {
    assume a: "hget (rq_headers req) ''Access-Control-Request-Headers'' = None
            \<or> hget (rq_headers req) ''Access-Control-Request-Headers'' = Some []"
    let ?h2 = "hset (hset ?h ''Access-Control-Allow-Methods'' (join '', '' (methods cfg)))
                 ''Access-Control-Allow-Headers'' (join '', '' (allowHeaders cfg))"
    have pa: "preflightAllow cfg req ?o ?h = preflightFinish cfg ?o ?h2"
      using a by (auto simp: preflightAllow_def truthy_def Let_def)
    obtain r where r: "preflightFinish cfg ?o ?h2 = Inr r" "status r = 204"
      "headers r ''access-control-allow-headers'' = ?h2 ''access-control-allow-headers''"
      using preflightFinish_result [of cfg ?o ?h2] by blast
    show "result_status (buildPreflightResponse cfg req) = Some 204"
      unfolding bp pa r(1) using r(2) by simp
    show "result_header (buildPreflightResponse cfg req) ''Access-Control-Allow-Headers''
            = Some (join '', '' (allowHeaders cfg))"
      unfolding bp pa r(1) using r(3) by (simp add: hget_def hset_def)
  }
qed

theorem preflight_requested_headers_witness:
  "requested_method_ok config (sample_request ''OPTIONS'' ''/''
      [(''Origin'', ''https://example.com''),
       (''Access-Control-Request-Headers'', ''Content-Type, X-Foo'')])
   \<and> requested_headers ''Content-Type, X-Foo'' = [''Content-Type'', ''X-Foo'']
   \<and> header_allowed config ''Content-Type'' \<and> \<not> header_allowed config ''X-Foo''
   \<and> result_status (buildPreflightResponse config (sample_request ''OPTIONS'' ''/''
        [(''Origin'', ''https://example.com''),
         (''Access-Control-Request-Headers'', ''Content-Type, X-Foo'')])) = Some 400
   \<and> result_body (buildPreflightResponse config (sample_request ''OPTIONS'' ''/''
        [(''Origin'', ''https://example.com''),
         (''Access-Control-Request-Headers'', ''Content-Type, X-Foo'')]))
       = Some (error_body ''CORS_HEADER_NOT_ALLOWED'' ''CORS header not allowed: X-Foo'')
   \<and> requested_method_ok config (sample_request ''OPTIONS'' ''/''
        [(''Origin'', ''https://example.com''),
         (''Access-Control-Request-Headers'', ''content-type'')])
   \<and> requested_headers ''content-type'' = [''content-type'']
   \<and> header_allowed config ''content-type''
   \<and> result_status (buildPreflightResponse config (sample_request ''OPTIONS'' ''/''
        [(''Origin'', ''https://example.com''),
         (''Access-Control-Request-Headers'', ''content-type'')])) = Some 204
   \<and> result_header (buildPreflightResponse config (sample_request ''OPTIONS'' ''/''
        [(''Origin'', ''https://example.com''),
         (''Access-Control-Request-Headers'', ''content-type'')]))
        ''Access-Control-Allow-Headers'' = Some ''content-type''
   \<and> requested_method_ok config
        (sample_request ''OPTIONS'' ''/'' [(''Origin'', ''https://example.com'')])
   \<and> hget (rq_headers (sample_request ''OPTIONS'' ''/'' [(''Origin'', ''https://example.com'')]))
        ''Access-Control-Request-Headers'' = None
   \<and> result_status (buildPreflightResponse config
        (sample_request ''OPTIONS'' ''/'' [(''Origin'', ''https://example.com'')])) = Some 204
   \<and> result_header (buildPreflightResponse config
        (sample_request ''OPTIONS'' ''/'' [(''Origin'', ''https://example.com'')]))
        ''Access-Control-Allow-Headers'' = Some ''Content-Type''"
proof -
  note ev = sample_request_def headers_of_def hget_def hset_def requested_method_ok_def
    requested_headers_def header_allowed_def trim_def is_ws_def config_def
    toLowerCase_def toLowerChar_def
  let ?r1 = "sample_request ''OPTIONS'' ''/''
      [(''Origin'', ''https://example.com''),
       (''Access-Control-Request-Headers'', ''Content-Type, X-Foo'')]"
  let ?r2 = "sample_request ''OPTIONS'' ''/''
      [(''Origin'', ''https://example.com''),
       (''Access-Control-Request-Headers'', ''content-type'')]"
  let ?r3 = "sample_request ''OPTIONS'' ''/'' [(''Origin'', ''https://example.com'')]"
  have m1: "requested_method_ok config ?r1" by (simp add: ev)
  have m2: "requested_method_ok config ?r2" by (simp add: ev)
  have m3: "requested_method_ok config ?r3" by (simp add: ev)
  have q1: "requested_headers ''Content-Type, X-Foo'' = [''Content-Type'', ''X-Foo'']"
    by (simp add: ev)
  have q2: "requested_headers ''content-type'' = [''content-type'']" by (simp add: ev)
  have a1: "header_allowed config ''Content-Type''" by (simp add: ev)
  have a2: "\<not> header_allowed config ''X-Foo''" by (simp add: ev)
  have a3: "header_allowed config ''content-type''" by (simp add: ev)
  have g1: "hget (rq_headers ?r1) ''Access-Control-Request-Headers'' = Some ''Content-Type, X-Foo''"
    by (simp add: sample_request_def headers_of_def hget_def hset_def)
  have g2: "hget (rq_headers ?r2) ''Access-Control-Request-Headers'' = Some ''content-type''"
    by (simp add: sample_request_def headers_of_def hget_def hset_def)
  have g3: "hget (rq_headers ?r3) ''Access-Control-Request-Headers'' = None"
    by (simp add: sample_request_def headers_of_def hget_def hset_def)
  have c1: "result_status (buildPreflightResponse config ?r1) = Some 400
     \<and> result_body (buildPreflightResponse config ?r1)
         = Some (error_body ''CORS_HEADER_NOT_ALLOWED'' ''CORS header not allowed: X-Foo'')"
    using preflight_requested_headers [OF m1, where v = "''Content-Type, X-Foo''"
        and pre = "[''Content-Type'']" and bad = "''X-Foo''" and post = "[]"]
      g1 q1 a1 a2
    by (simp add: CORS_HEADER_NOT_ALLOWED_def)
  have c2: "result_status (buildPreflightResponse config ?r2) = Some 204
     \<and> result_header (buildPreflightResponse config ?r2) ''Access-Control-Allow-Headers''
         = Some ''content-type''"
    using preflight_requested_headers [OF m2, where v = "''content-type''"
        and pre = "[]" and bad = "[]" and post = "[]"]
      g2 q2 a3
    by simp
  have c3: "result_status (buildPreflightResponse config ?r3) = Some 204
     \<and> result_header (buildPreflightResponse config ?r3) ''Access-Control-Allow-Headers''
         = Some ''Content-Type''"
    using preflight_requested_headers [OF m3, where v = "[]"
        and pre = "[]" and bad = "[]" and post = "[]"]
      g3
    by (simp add: config_def)
  show ?thesis using m1 m2 m3 q1 q2 a1 a2 a3 g3 c1 c2 c3 by simp
qed

text \<open>
  The claim as first worded echoes the requested list whenever the header is present. A
  present header with an empty value asks for nothing, and the response advertises the
  whole allowlist.
\<close>

theorem preflight_empty_request_headers_counterexample:
  "hget (rq_headers (sample_request ''OPTIONS'' ''/''
          [(''Origin'', ''https://example.com''),
           (''Access-Control-Request-Headers'', [])]))
      ''Access-Control-Request-Headers'' = Some []
   \<and> requested_headers [] = []
   \<and> join '', '' (requested_headers []) = []
   \<and> result_status (buildPreflightResponse config (sample_request ''OPTIONS'' ''/''
          [(''Origin'', ''https://example.com''),
           (''Access-Control-Request-Headers'', [])])) = Some 204
   \<and> result_header (buildPreflightResponse config (sample_request ''OPTIONS'' ''/''
          [(''Origin'', ''https://example.com''),
           (''Access-Control-Request-Headers'', [])])) ''Access-Control-Allow-Headers''
        = Some ''Content-Type''"
  by (simp add: eval_defs requested_headers_def)

section \<open>Wrapping a response\<close>

lemma search_append: "search r (Some c, s) \<Longrightarrow> search r (p, u @ c # s)"
  by (induction u arbitrary: p) simp_all

lemma origin_word_at_end: "search origin_word (Some CHR '' '', ''Origin'')"
  by code_simp

lemma origin_word_alone: "regex_test origin_word ''Origin''"
  by code_simp

lemma origin_word_appended: "regex_test origin_word (v @ '', Origin'')"
proof -
  have "search origin_word (None, (v @ '','') @ CHR '' '' # ''Origin'')"
    using origin_word_at_end by (rule search_append)
  then show ?thesis by (simp add: regex_test_def)
qed

lemma vary_value_nonempty: "vary_value old \<noteq> []"
  by (simp add: vary_value_def split: option.splits)

lemma vary_value_idem: "vary_value (Some (vary_value old)) = vary_value old"
  by (simp add: vary_value_def origin_word_alone origin_word_appended split: option.splits)

lemma varyOrigin_apply:
  "varyOrigin h k = (if k = ''vary'' then Some (vary_value (h ''vary'')) else h k)"
  by (simp add: varyOrigin_def vary_value_def hget_def hset_def split: option.splits)

lemma originHeaders_apply:
  "originHeaders cfg origin h k = origin_value cfg origin k (h k)"
  by (simp add: originHeaders_def origin_value_def Let_def varyOrigin_apply hhas_def hset_def
      split: option.splits)

lemma infoHeaders_apply: "infoHeaders cfg h k = info_value cfg k (h k)"
  by (simp add: infoHeaders_def info_value_def Let_def hhas_def hset_def
      split: option.splits list.splits)

lemma origin_value_idem:
  "origin_value cfg origin k (origin_value cfg origin k x) = origin_value cfg origin k x"
  by (simp add: origin_value_def vary_value_idem split: option.splits)

lemma info_value_idem: "info_value cfg k (info_value cfg k x) = info_value cfg k x"
  by (simp add: info_value_def split: option.splits list.splits)

lemma info_origin_commute:
  "origin_value cfg origin k (info_value cfg k x) = info_value cfg k (origin_value cfg origin k x)"
  by (simp add: info_value_def origin_value_def)

lemma corsHeaders_idem: "corsHeaders cfg req (corsHeaders cfg req h) = corsHeaders cfg req h"
proof (rule ext)
  fix k
  show "corsHeaders cfg req (corsHeaders cfg req h) k = corsHeaders cfg req h k"
    by (simp add: corsHeaders_def Let_def infoHeaders_apply originHeaders_apply
        info_origin_commute origin_value_idem info_value_idem)
qed

lemma corsHeaders_apply:
  "corsHeaders cfg req h k =
     info_value cfg k
       (case resolveAllowOrigin cfg req of
          None \<Rightarrow> h k
        | Some origin \<Rightarrow> if origin = [] then h k else origin_value cfg origin k (h k))"
  by (simp add: corsHeaders_def Let_def truthy_def infoHeaders_apply originHeaders_apply
      split: option.splits)

lemma applyCors_Inr:
  "applyCors cfg req resp = Inr r \<Longrightarrow>
     status r = status resp \<and> statusText r = statusText resp \<and> body r = body resp
     \<and> headers r = corsHeaders cfg req (headers resp)"
  by (auto simp: applyCors_def dest: new_Response_Inr)

lemma applyCors_ok:
  "200 \<le> status resp \<Longrightarrow> status resp \<le> 599 \<Longrightarrow>
   \<not> (non_null (body resp) \<and> null_body_status (status resp)) \<Longrightarrow>
   applyCors cfg req resp =
     Inr \<lparr> status = status resp, statusText = statusText resp,
           headers = corsHeaders cfg req (headers resp), body = body resp \<rparr>"
  by (auto simp: applyCors_def new_Response_def)

text \<open>
  The \<open>Vary\<close> header after wrapping: untouched when nothing or the wildcard is resolved,
  and otherwise \<open>Origin\<close> for an absent or empty value, the old value when the pattern
  finds the word in it, and the old value followed by \<open>, Origin\<close> when it does not.
\<close>

lemma corsHeaders_vary:
  "corsHeaders cfg req h ''vary'' =
     (case resolveAllowOrigin cfg req of
        None \<Rightarrow> h ''vary''
      | Some origin \<Rightarrow>
          if origin = [] \<or> origin = ''*'' then h ''vary''
          else Some (vary_value (h ''vary'')))"
  by (simp add: corsHeaders_apply info_value_def origin_value_def split: option.splits)

lemma vary_value_cases:
  "vary_value None = ''Origin''"
  "vary_value (Some []) = ''Origin''"
  "v \<noteq> [] \<Longrightarrow> regex_test origin_word v \<Longrightarrow> vary_value (Some v) = v"
  "v \<noteq> [] \<Longrightarrow> \<not> regex_test origin_word v \<Longrightarrow> vary_value (Some v) = v @ '', Origin''"
  by (simp_all add: vary_value_def)

text \<open>
  C6. Wrapping is idempotent: wrapping the result of \<open>applyCors\<close> again, with the same
  request, gives the same status, status text, body and headers as wrapping once (and
  where the first wrapping throws, so does the second).
\<close>

theorem applyCors_idempotent:
  "bind_err (applyCors cfg req resp) (applyCors cfg req) = applyCors cfg req resp"
  by (simp add: applyCors_def new_Response_def bind_err_def corsHeaders_idem)

lemma sample_origin:
  "resolveAllowOrigin config
     (sample_request ''GET'' ''/'' [(''Origin'', ''https://example.com'')])
     = Some ''https://example.com''"
  by (simp add: resolveAllowOrigin_def config_def sample_request_def headers_of_def
      hget_def hset_def)

lemma sample_response_ok:
  "200 \<le> status (sample_response 200 hs)" "status (sample_response 200 hs) \<le> 599"
  "\<not> (non_null (body (sample_response 200 hs)) \<and> null_body_status (status (sample_response 200 hs)))"
  "headers (sample_response 200 hs) = headers_of hs"
  by (simp_all add: sample_response_def)

lemma no_origin_word: "\<not> regex_test origin_word ''Accept-Encoding''"
  by code_simp

lemma hyphenated_origin_word: "regex_test origin_word ''X-Origin''"
  by code_simp

lemma hyphenated_not_listed: "\<not> vary_lists ''X-Origin'' ''Origin''"
  by code_simp

lemma vary_example:
  "result_header
     (applyCors config (sample_request ''GET'' ''/'' [(''Origin'', ''https://example.com'')])
        (sample_response 200 [(''Vary'', ''Accept-Encoding'')])) ''Vary''
     = Some ''Accept-Encoding, Origin''"
  by (simp add: applyCors_ok sample_response_ok hget_def corsHeaders_apply sample_origin
      info_value_def origin_value_def vary_value_def no_origin_word headers_of_def hset_def)

theorem applyCors_idempotent_witness:
  "result_header
     (bind_err
        (applyCors config (sample_request ''GET'' ''/'' [(''Origin'', ''https://example.com'')])
           (sample_response 200 [(''Vary'', ''Accept-Encoding'')]))
        (applyCors config (sample_request ''GET'' ''/'' [(''Origin'', ''https://example.com'')])))
     ''Vary'' = Some ''Accept-Encoding, Origin''"
  using applyCors_idempotent
    [of config "sample_request ''GET'' ''/'' [(''Origin'', ''https://example.com'')]"
        "sample_response 200 [(''Vary'', ''Accept-Encoding'')]"]
    vary_example
  by simp

text \<open>
  C5. For a resolved origin other than the wildcard, \<open>applyCors\<close> is meant to leave a
  \<open>Vary\<close> header that lists \<open>Origin\<close>, adding it to an existing value unless it is
  already listed. The test for "already listed" is the pattern \<^verbatim>\<open>/\bOrigin\b/i\<close>, which
  also matches inside a hyphenated field name: for a response that arrives with
  \<open>Vary: X-Origin\<close> and an allowed origin, the result carries the origin in
  \<open>Access-Control-Allow-Origin\<close> and its \<open>Vary\<close> is still \<open>X-Origin\<close>, which does not list
  \<open>Origin\<close>.
\<close>

theorem applyCors_vary_hyphenated_name:
  "resolveAllowOrigin config
     (sample_request ''GET'' ''/'' [(''Origin'', ''https://example.com'')])
     = Some ''https://example.com''
   \<and> result_header
       (applyCors config (sample_request ''GET'' ''/'' [(''Origin'', ''https://example.com'')])
          (sample_response 200 [(''Vary'', ''X-Origin'')])) ''Access-Control-Allow-Origin''
       = Some ''https://example.com''
   \<and> result_header
       (applyCors config (sample_request ''GET'' ''/'' [(''Origin'', ''https://example.com'')])
          (sample_response 200 [(''Vary'', ''X-Origin'')])) ''Vary''
       = Some ''X-Origin''
   \<and> \<not> vary_lists ''X-Origin'' ''Origin''"
  by (simp add: applyCors_ok sample_response_ok hget_def corsHeaders_apply sample_origin
      info_value_def origin_value_def vary_value_def hyphenated_origin_word
      hyphenated_not_listed headers_of_def hset_def)

section \<open>The entry point\<close>

lemma noContentResponse_allow:
  "noContentResponse [(''Allow'', v)] =
     Inr \<lparr> status = 204, statusText = [],
           headers = [''allow'' \<mapsto> v, ''cache-control'' \<mapsto> ''no-store'',
                      ''x-content-type-options'' \<mapsto> ''nosniff''],
           body = NoBody \<rparr>"
  by (simp add: noContentResponse_def headers_of_def hset_def hhas_def new_Response_def
      non_null_def Let_def)

lemma bare_no_access_control:
  "is_access_control name \<Longrightarrow> hget (bare_options_headers cfg) name = None"
  by (auto simp: is_access_control_def bare_options_headers_def hget_def)

lemma errorResponse_Inr:
  "errorResponse st code message = Inr r \<Longrightarrow>
     status r = st \<and> headers r = headers_of JSON_HEADERS \<and> body r = error_body code message"
  by (auto simp: errorResponse_def error_body_def dest: new_Response_Inr)

lemma successResponse_Inr:
  "successResponse data st = Inr r \<Longrightarrow>
     status r = st \<and> headers r = headers_of JSON_HEADERS \<and> body r = JsonBody data"
  by (auto simp: successResponse_def dest: new_Response_Inr)

lemma bind_err_InrE:
  assumes "bind_err m f = Inr y"
  obtains x where "m = Inr x" and "f x = Inr y"
  using assms by (cases m) (simp_all add: bind_err_def)

lemma preflightFinish_methods:
  "preflightFinish cfg origin h = Inr r \<Longrightarrow>
     status r = 204
     \<and> headers r ''access-control-allow-methods'' = h ''access-control-allow-methods''"
  using preflightFinish_result [of cfg origin h] by auto

lemma preflightAllow_shape:
  assumes "preflightAllow cfg req origin h = Inr r"
  shows "status r = 400 \<or> (status r = 204 \<and> headers r ''access-control-allow-methods'' \<noteq> None)"
proof -
  let ?h1 = "hset h ''Access-Control-Allow-Methods'' (join '', '' (methods cfg))"
  let ?rh = "hget (rq_headers req) ''Access-Control-Request-Headers''"
  let ?requested = "filter (\<lambda>h. h \<noteq> []) (map trim (split_on CHR '','' (the ?rh)))"
  have fin: "status r = 204 \<and> headers r ''access-control-allow-methods'' \<noteq> None"
    if "preflightFinish cfg origin (hset ?h1 ''Access-Control-Allow-Headers'' v) = Inr r" for v
    using preflightFinish_methods [OF that] by (simp add: hset_def)
  show ?thesis
  proof (cases "truthy ?rh")
    case False
    then have "preflightAllow cfg req origin h =
        preflightFinish cfg origin
          (hset ?h1 ''Access-Control-Allow-Headers'' (join '', '' (allowHeaders cfg)))"
      by (simp add: preflightAllow_def Let_def)
    then show ?thesis using assms fin by simp
  next
    case True
    show ?thesis
    proof (cases "first_disallowed (map toLowerCase (allowHeaders cfg)) ?requested")
      case None
      then have "preflightAllow cfg req origin h =
          preflightFinish cfg origin
            (hset ?h1 ''Access-Control-Allow-Headers'' (join '', '' ?requested))"
        using True by (simp add: preflightAllow_def Let_def)
      then show ?thesis using assms fin by simp
    next
      case (Some bad)
      then have "preflightAllow cfg req origin h =
          errorResponse 400 CORS_HEADER_NOT_ALLOWED (''CORS header not allowed: '' @ bad)"
        using True by (simp add: preflightAllow_def Let_def)
      then show ?thesis using assms errorResponse_Inr by fastforce
    qed
  qed
qed

lemma buildPreflightResponse_shape:
  assumes "buildPreflightResponse cfg req = Inr r"
  shows "status r = 405 \<or> status r = 400
         \<or> (status r = 204 \<and> headers r ''access-control-allow-methods'' \<noteq> None)"
proof -
  let ?acrm = "hget (rq_headers req) ''Access-Control-Request-Method''"
  show ?thesis
  proof (cases "truthy ?acrm \<and> toUpperCase (the ?acrm) \<notin> set (methods cfg)")
    case True
    then have "buildPreflightResponse cfg req =
        errorResponse 405 METHOD_NOT_ALLOWED (''Method '' @ the ?acrm @ '' not allowed'')"
      by (simp add: buildPreflightResponse_def Let_def)
    then show ?thesis using assms errorResponse_Inr by fastforce
  next
    case False
    then have "\<exists>origin h. buildPreflightResponse cfg req = preflightAllow cfg req origin h"
      by (auto simp: buildPreflightResponse_def Let_def)
    then show ?thesis using assms preflightAllow_shape by fastforce
  qed
qed

lemma preflight_not_bare:
  "buildPreflightResponse cfg req \<noteq>
     Inr \<lparr> status = 204, statusText = [], headers = bare_options_headers cfg, body = NoBody \<rparr>"
proof
  assume "buildPreflightResponse cfg req =
     Inr \<lparr> status = 204, statusText = [], headers = bare_options_headers cfg, body = NoBody \<rparr>"
  from buildPreflightResponse_shape [OF this] show False
    by (simp add: bare_options_headers_def)
qed

text \<open>
  C7. For an \<open>OPTIONS\<close> request, with \<open>OPTIONS\<close> in the method allowlist, the entry point
  returns the result of \<open>buildPreflightResponse\<close> as it is exactly when the \<open>Origin\<close>,
  \<open>Access-Control-Request-Method\<close> and \<open>Access-Control-Request-Headers\<close> headers are all
  present; otherwise it returns a 204 without body whose \<open>Allow\<close> header lists the method
  allowlist and which has no \<open>Access-Control-*\<close> header.
\<close>

theorem fetch_options:
  assumes "rq_method req = ''OPTIONS''" and "''OPTIONS'' \<in> set (methods cfg)"
  shows "(preflight_headers_present req \<longrightarrow> fetch cfg req = buildPreflightResponse cfg req)
       \<and> (\<not> preflight_headers_present req \<longrightarrow>
            fetch cfg req =
              Inr \<lparr> status = 204, statusText = [], headers = bare_options_headers cfg,
                    body = NoBody \<rparr>
            \<and> result_header (fetch cfg req) ''Allow'' = Some (join '', '' (methods cfg))
            \<and> (\<forall>name. is_access_control name \<longrightarrow> result_header (fetch cfg req) name = None))
       \<and> ((fetch cfg req = buildPreflightResponse cfg req) = preflight_headers_present req)"
proof -
  have f: "fetch cfg req = handleOptions cfg req"
    using assms by (simp add: fetch_def)
  have p: "preflight_headers_present req \<Longrightarrow> fetch cfg req = buildPreflightResponse cfg req"
    unfolding f by (simp add: handleOptions_def preflight_headers_present_def)
  have b: "fetch cfg req =
              Inr \<lparr> status = 204, statusText = [], headers = bare_options_headers cfg,
                    body = NoBody \<rparr>" if "\<not> preflight_headers_present req"
    unfolding f using that
    by (auto simp: handleOptions_def preflight_headers_present_def noContentResponse_allow
        bare_options_headers_def)
  have a: "result_header (fetch cfg req) ''Allow'' = Some (join '', '' (methods cfg))"
    if "\<not> preflight_headers_present req"
    unfolding b [OF that] by (simp add: bare_options_headers_def hget_def)
  have c: "\<forall>name. is_access_control name \<longrightarrow> result_header (fetch cfg req) name = None"
    if "\<not> preflight_headers_present req"
    unfolding b [OF that] by (simp add: bare_no_access_control)
  have e: "(fetch cfg req = buildPreflightResponse cfg req) = preflight_headers_present req"
  proof (cases "preflight_headers_present req")
    case True
    then show ?thesis using p by simp
  next
    case False
    then show ?thesis using b [OF False] preflight_not_bare [of cfg req] by simp
  qed
  show ?thesis using p b a c e by blast
qed

theorem fetch_options_witness:
  "rq_method (sample_request ''OPTIONS'' ''/''
      [(''Origin'', ''https://example.com''),
       (''Access-Control-Request-Method'', ''POST''),
       (''Access-Control-Request-Headers'', ''content-type'')]) = ''OPTIONS''
   \<and> ''OPTIONS'' \<in> set (methods config)
   \<and> preflight_headers_present (sample_request ''OPTIONS'' ''/''
      [(''Origin'', ''https://example.com''),
       (''Access-Control-Request-Method'', ''POST''),
       (''Access-Control-Request-Headers'', ''content-type'')])
   \<and> fetch config (sample_request ''OPTIONS'' ''/''
      [(''Origin'', ''https://example.com''),
       (''Access-Control-Request-Method'', ''POST''),
       (''Access-Control-Request-Headers'', ''content-type'')])
     = buildPreflightResponse config (sample_request ''OPTIONS'' ''/''
      [(''Origin'', ''https://example.com''),
       (''Access-Control-Request-Method'', ''POST''),
       (''Access-Control-Request-Headers'', ''content-type'')])
   \<and> \<not> preflight_headers_present
         (sample_request ''OPTIONS'' ''/'' [(''Origin'', ''https://example.com'')])
   \<and> result_status (fetch config
         (sample_request ''OPTIONS'' ''/'' [(''Origin'', ''https://example.com'')])) = Some 204
   \<and> result_header (fetch config
         (sample_request ''OPTIONS'' ''/'' [(''Origin'', ''https://example.com'')])) ''Allow''
       = Some ''GET, HEAD, POST, OPTIONS, PATCH''
   \<and> result_header (fetch config
         (sample_request ''OPTIONS'' ''/'' [(''Origin'', ''https://example.com'')]))
         ''Access-Control-Allow-Origin'' = None"
proof -
  let ?r1 = "sample_request ''OPTIONS'' ''/''
      [(''Origin'', ''https://example.com''),
       (''Access-Control-Request-Method'', ''POST''),
       (''Access-Control-Request-Headers'', ''content-type'')]"
  let ?r2 = "sample_request ''OPTIONS'' ''/'' [(''Origin'', ''https://example.com'')]"
  have m1: "rq_method ?r1 = ''OPTIONS''" and m2: "rq_method ?r2 = ''OPTIONS''"
    by (simp_all add: sample_request_def)
  have o: "''OPTIONS'' \<in> set (methods config)" by (simp add: config_def)
  have p1: "preflight_headers_present ?r1"
    by (simp add: preflight_headers_present_def sample_request_def headers_of_def hget_def
        hset_def)
  have p2: "\<not> preflight_headers_present ?r2"
    by (simp add: preflight_headers_present_def sample_request_def headers_of_def hget_def
        hset_def)
  have ac: "is_access_control ''Access-Control-Allow-Origin''"
    by (simp add: is_access_control_def)
  have j: "join '', '' (methods config) = ''GET, HEAD, POST, OPTIONS, PATCH''"
    by (simp add: config_def)
  show ?thesis
    using fetch_options [OF m1 o] fetch_options [OF m2 o] m1 o p1 p2 ac j
    by (simp add: bare_options_headers_def hget_def)
qed

subsection \<open>Requests without an Origin header\<close>

lemma resolve_no_origin:
  "hget (rq_headers req) ''Origin'' = None \<Longrightarrow> resolveAllowOrigin cfg req = None"
  by (simp add: resolveAllowOrigin_def)

lemma corsHeaders_no_origin:
  "hget (rq_headers req) ''Origin'' = None \<Longrightarrow>
     corsHeaders cfg req h ''access-control-allow-origin'' = h ''access-control-allow-origin''"
  by (simp add: corsHeaders_apply resolve_no_origin info_value_def)

lemma applyCors_no_origin:
  assumes "hget (rq_headers req) ''Origin'' = None"
    and "headers r0 ''access-control-allow-origin'' = None"
  shows "result_header (applyCors cfg req r0) ''Access-Control-Allow-Origin'' = None"
proof (cases "applyCors cfg req r0")
  case (Inl e)
  then show ?thesis by simp
next
  case (Inr r)
  then show ?thesis
    using applyCors_Inr [OF Inr] corsHeaders_no_origin [OF assms(1)] assms(2)
    by (simp add: hget_def)
qed

lemma json_headers_no_acao: "headers_of JSON_HEADERS ''access-control-allow-origin'' = None"
  by (simp add: json_headers_map)

lemma getAllJson_headers:
  assumes "getAllJson req = Inr r"
  shows "headers r = headers_of JSON_HEADERS"
proof (cases "rq_method req \<noteq> ''GET'' \<and> rq_method req \<noteq> ''HEAD''")
  case True
  then show ?thesis using assms errorResponse_Inr by (fastforce simp: getAllJson_def)
next
  case False
  show ?thesis
  proof (cases "getAllJson_try req")
    case (Inl e)
    then show ?thesis using assms False errorResponse_Inr by (fastforce simp: getAllJson_def)
  next
    case (Inr r')
    then have r: "getAllJson_try req = Inr r" using assms False by (simp add: getAllJson_def)
    show ?thesis
    proof (cases "rq_cf req")
      case None
      then show ?thesis using r errorResponse_Inr by (fastforce simp: getAllJson_try_def)
    next
      case (Some cf)
      show ?thesis
      proof (cases "rq_method req = ''HEAD''")
        case True
        then show ?thesis using r Some new_Response_Inr
          by (fastforce simp: getAllJson_try_def)
      next
        case False
        then have "bind_err (getAllJson_ipInfo req cf)
                     (\<lambda>ipInfo. successResponse (json_of_IPInfo ipInfo) 200) = Inr r"
          using r Some by (simp add: getAllJson_try_def)
        then show ?thesis using successResponse_Inr by (elim bind_err_InrE) fastforce
      qed
    qed
  qed
qed

lemma handleRequest_headers:
  assumes "handleRequest cfg req = Inr r"
  shows "headers r ''access-control-allow-origin'' = None"
proof -
  have j: "headers r = headers_of JSON_HEADERS \<Longrightarrow> ?thesis"
    by (simp add: json_headers_no_acao)
  consider (m) "rq_method req \<notin> set (methods cfg)"
    | (health) "rq_method req \<in> set (methods cfg)" "rq_pathname req = listApi_health"
    | (home) "rq_method req \<in> set (methods cfg)" "rq_pathname req \<noteq> listApi_health"
        "rq_pathname req = listApi_home"
    | (all) "rq_method req \<in> set (methods cfg)" "rq_pathname req \<noteq> listApi_health"
        "rq_pathname req \<noteq> listApi_home" "rq_pathname req = listApi_all_json"
    | (cf) "rq_method req \<in> set (methods cfg)" "rq_pathname req \<noteq> listApi_health"
        "rq_pathname req \<noteq> listApi_home" "rq_pathname req \<noteq> listApi_all_json"
        "rq_pathname req = listApi_cf_json"
    | (hd) "rq_method req \<in> set (methods cfg)" "rq_pathname req \<noteq> listApi_health"
        "rq_pathname req \<noteq> listApi_home" "rq_pathname req \<noteq> listApi_all_json"
        "rq_pathname req \<noteq> listApi_cf_json" "rq_pathname req = listApi_headers"
    | (nf) "rq_method req \<in> set (methods cfg)" "rq_pathname req \<noteq> listApi_health"
        "rq_pathname req \<noteq> listApi_home" "rq_pathname req \<noteq> listApi_all_json"
        "rq_pathname req \<noteq> listApi_cf_json" "rq_pathname req \<noteq> listApi_headers"
    by blast
  then show ?thesis
  proof cases
    case m
    then have "errorResponse 405 METHOD_NOT_ALLOWED ''Method not allowed'' = Inr r"
      using assms by (simp add: handleRequest_def)
    then show ?thesis using errorResponse_Inr j by blast
  next
    case health
    then have "successResponse (JObj [(''msg'', JStr ''Server up and running'')]) 200 = Inr r"
      using assms by (simp add: handleRequest_def)
    then show ?thesis using successResponse_Inr j by blast
  next
    case home
    then have "getHome req = Inr r" using assms by (simp add: handleRequest_def)
    then have "headers r = headers_of [(''content-type'', ''text/plain; charset=utf-8''),
                        (''cache-control'', ''no-store''),
                        (''x-content-type-options'', ''nosniff'')]"
      using new_Response_Inr by (fastforce simp: getHome_def Let_def)
    then show ?thesis by (simp add: headers_of_def hset_def)
  next
    case all
    then have "getAllJson req = Inr r" using assms by (simp add: handleRequest_def)
    then show ?thesis using getAllJson_headers j by blast
  next
    case cf
    then have c: "(case rq_cf req of
                   None \<Rightarrow> successResponse (JObj []) 200
                 | Some cf \<Rightarrow>
                     bind_err (stringify_cf cf) (\<lambda>fs. successResponse (JObj fs) 200)) = Inr r"
      using assms by (simp add: handleRequest_def)
    show ?thesis
    proof (cases "rq_cf req")
      case None
      then show ?thesis using c successResponse_Inr j by fastforce
    next
      case (Some a)
      then have "bind_err (stringify_cf a) (\<lambda>fs. successResponse (JObj fs) 200) = Inr r"
        using c by simp
      then show ?thesis using successResponse_Inr j by (elim bind_err_InrE) fastforce
    qed
  next
    case hd
    then have "successResponse (JDict (rq_headers req)) 200 = Inr r"
      using assms by (simp add: handleRequest_def)
    then show ?thesis using successResponse_Inr j by blast
  next
    case nf
    then have "errorResponse 404 NOT_FOUND ''Request path not defined'' = Inr r"
      using assms by (simp add: handleRequest_def)
    then show ?thesis using errorResponse_Inr j by blast
  qed
qed

text \<open>
  C2. For a request without an \<open>Origin\<close> header, whatever the entry point returns has no
  \<open>Access-Control-Allow-Origin\<close> header, under every configuration.
\<close>

theorem fetch_without_origin:
  assumes "hget (rq_headers req) ''Origin'' = None"
  shows "result_header (fetch cfg req) ''Access-Control-Allow-Origin'' = None"
proof (cases "rq_method req \<in> set (methods cfg)")
  case False
  have "new_Response NoBody 405 ''Method Not Allowed'' Map.empty =
          Inr \<lparr> status = 405, statusText = ''Method Not Allowed'', headers = Map.empty,
                body = NoBody \<rparr>"
    by (simp add: new_Response_def non_null_def)
  then have "fetch cfg req =
      applyCors cfg req \<lparr> status = 405, statusText = ''Method Not Allowed'',
                          headers = Map.empty, body = NoBody \<rparr>"
    using False by (simp add: fetch_def bind_err_def)
  then show ?thesis using applyCors_no_origin [OF assms] by simp
next
  case True
  show ?thesis
  proof (cases "rq_method req = ''OPTIONS''")
    case opt: True
    then have "fetch cfg req = noContentResponse [(''Allow'', join '', '' (methods cfg))]"
      using True assms by (simp add: fetch_def handleOptions_def)
    then show ?thesis by (simp add: noContentResponse_allow hget_def)
  next
    case nopt: False
    then have f: "fetch cfg req = bind_err (handleRequest cfg req) (applyCors cfg req)"
      using True by (simp add: fetch_def)
    show ?thesis
    proof (cases "handleRequest cfg req")
      case (Inl e)
      then show ?thesis unfolding f by (simp add: bind_err_def)
    next
      case (Inr r0)
      then show ?thesis
        unfolding f using applyCors_no_origin [OF assms handleRequest_headers [OF Inr]]
        by (simp add: bind_err_def)
    qed
  qed
qed

lemma health_status:
  "''GET'' \<in> set (methods cfg) \<Longrightarrow>
   result_status (fetch cfg (sample_request ''GET'' ''/health'' [])) = Some 200"
  by (simp add: fetch_def handleRequest_def sample_request_def listApi_health_def
      successResponse_def new_Response_def non_null_def bind_err_def applyCors_def Let_def)

theorem fetch_without_origin_witness:
  "hget (rq_headers (sample_request ''GET'' ''/health'' [])) ''Origin'' = None
   \<and> result_status (fetch config (sample_request ''GET'' ''/health'' [])) = Some 200
   \<and> result_header (fetch config (sample_request ''GET'' ''/health'' []))
        ''Access-Control-Allow-Origin'' = None
   \<and> result_status (fetch (config\<lparr>host := HostString ''*''\<rparr>)
        (sample_request ''GET'' ''/health'' [])) = Some 200
   \<and> result_header (fetch (config\<lparr>host := HostString ''*''\<rparr>)
        (sample_request ''GET'' ''/health'' [])) ''Access-Control-Allow-Origin'' = None"
proof -
  have h: "hget (rq_headers (sample_request ''GET'' ''/health'' [])) ''Origin'' = None"
    by (simp add: sample_request_def headers_of_def hget_def)
  have s1: "result_status (fetch config (sample_request ''GET'' ''/health'' [])) = Some 200"
    by (rule health_status) (simp add: config_def)
  have s2: "result_status (fetch (config\<lparr>host := HostString ''*''\<rparr>)
        (sample_request ''GET'' ''/health'' [])) = Some 200"
    by (rule health_status) (simp add: config_def)
  show ?thesis
    using fetch_without_origin [OF h, of config]
      fetch_without_origin [OF h, of "config\<lparr>host := HostString ''*''\<rparr>"] h s1 s2
    by simp
qed

section \<open>The metadata route\<close>

lemma errorResponse_500:
  "errorResponse 500 code message =
     Inr \<lparr> status = 500, statusText = [], headers = headers_of JSON_HEADERS,
           body = error_body code message \<rparr>"
  by (simp add: errorResponse_ok)

lemma errorResponse_405:
  "errorResponse 405 code message =
     Inr \<lparr> status = 405, statusText = [], headers = headers_of JSON_HEADERS,
           body = error_body code message \<rparr>"
  by (simp add: errorResponse_ok)

text \<open>
  C8. For a \<open>GET\<close> or \<open>HEAD\<close> request without platform metadata the metadata route
  returns status 500 with code \<open>ENV_PLATFORM_METADATA_MISSING\<close>; any other method gets 405
  with code \<open>METHOD_NOT_ALLOWED\<close>; and when the \<open>try\<close> block throws, the route returns
  500 with code \<open>INTERNAL_SERVER_ERROR\<close>.
\<close>

theorem getAllJson_errors:
  "((rq_method req = ''GET'' \<or> rq_method req = ''HEAD'') \<and> rq_cf req = None \<longrightarrow>
      getAllJson req =
        Inr \<lparr> status = 500, statusText = [], headers = headers_of JSON_HEADERS,
              body = error_body ENV_PLATFORM_METADATA_MISSING
                       ''Platform metadata unavailable'' \<rparr>)
   \<and> (rq_method req \<noteq> ''GET'' \<and> rq_method req \<noteq> ''HEAD'' \<longrightarrow>
      getAllJson req =
        Inr \<lparr> status = 405, statusText = [], headers = headers_of JSON_HEADERS,
              body = error_body METHOD_NOT_ALLOWED ''Method not allowed'' \<rparr>)
   \<and> ((rq_method req = ''GET'' \<or> rq_method req = ''HEAD'') \<and> getAllJson_try req = Inl e \<longrightarrow>
      getAllJson req =
        Inr \<lparr> status = 500, statusText = [], headers = headers_of JSON_HEADERS,
              body = error_body INTERNAL_SERVER_ERROR ''Internal Server Error'' \<rparr>)"
  by (auto simp: getAllJson_def getAllJson_try_def errorResponse_500 errorResponse_405)

lemma throwing_asn:
  "getAllJson_try ((sample_request ''GET'' ''/all.json'' [])
      \<lparr>rq_cf := Some [(''asn'', ThrowingGetter)]\<rparr>) = Inl AccessorError"
  by (simp add: getAllJson_try_def sample_request_def getAllJson_ipInfo_def cf_get_def
      bind_err_def Let_def)

theorem getAllJson_errors_witness:
  "result_status (getAllJson (sample_request ''GET'' ''/all.json'' [])) = Some 500
   \<and> result_field (getAllJson (sample_request ''GET'' ''/all.json'' [])) ''code''
       = Some (JStr ''ENV_PLATFORM_METADATA_MISSING'')
   \<and> result_status (getAllJson (sample_request ''HEAD'' ''/all.json'' [])) = Some 500
   \<and> result_field (getAllJson (sample_request ''HEAD'' ''/all.json'' [])) ''code''
       = Some (JStr ''ENV_PLATFORM_METADATA_MISSING'')
   \<and> result_status (getAllJson (sample_request ''POST'' ''/all.json'' [])) = Some 405
   \<and> result_field (getAllJson (sample_request ''POST'' ''/all.json'' [])) ''code''
       = Some (JStr ''METHOD_NOT_ALLOWED'')
   \<and> getAllJson_try ((sample_request ''GET'' ''/all.json'' [])
        \<lparr>rq_cf := Some [(''asn'', ThrowingGetter)]\<rparr>) = Inl AccessorError
   \<and> result_status (getAllJson ((sample_request ''GET'' ''/all.json'' [])
        \<lparr>rq_cf := Some [(''asn'', ThrowingGetter)]\<rparr>)) = Some 500
   \<and> result_field (getAllJson ((sample_request ''GET'' ''/all.json'' [])
        \<lparr>rq_cf := Some [(''asn'', ThrowingGetter)]\<rparr>)) ''code''
       = Some (JStr ''INTERNAL_SERVER_ERROR'')"
proof -
  note ev = sample_request_def result_field_def error_body_def json_field_def
    ENV_PLATFORM_METADATA_MISSING_def METHOD_NOT_ALLOWED_def INTERNAL_SERVER_ERROR_def
  have a: "result_status (getAllJson (sample_request ''GET'' ''/all.json'' [])) = Some 500
     \<and> result_field (getAllJson (sample_request ''GET'' ''/all.json'' [])) ''code''
       = Some (JStr ''ENV_PLATFORM_METADATA_MISSING'')"
    using getAllJson_errors [of "sample_request ''GET'' ''/all.json'' []"]
    by (simp add: ev)
  have b: "result_status (getAllJson (sample_request ''HEAD'' ''/all.json'' [])) = Some 500
     \<and> result_field (getAllJson (sample_request ''HEAD'' ''/all.json'' [])) ''code''
       = Some (JStr ''ENV_PLATFORM_METADATA_MISSING'')"
    using getAllJson_errors [of "sample_request ''HEAD'' ''/all.json'' []"]
    by (simp add: ev)
  have c: "result_status (getAllJson (sample_request ''POST'' ''/all.json'' [])) = Some 405
     \<and> result_field (getAllJson (sample_request ''POST'' ''/all.json'' [])) ''code''
       = Some (JStr ''METHOD_NOT_ALLOWED'')"
    using getAllJson_errors [of "sample_request ''POST'' ''/all.json'' []"]
    by (simp add: ev)
  have d: "result_status (getAllJson ((sample_request ''GET'' ''/all.json'' [])
        \<lparr>rq_cf := Some [(''asn'', ThrowingGetter)]\<rparr>)) = Some 500
     \<and> result_field (getAllJson ((sample_request ''GET'' ''/all.json'' [])
        \<lparr>rq_cf := Some [(''asn'', ThrowingGetter)]\<rparr>)) ''code''
       = Some (JStr ''INTERNAL_SERVER_ERROR'')"
    using getAllJson_errors [of "(sample_request ''GET'' ''/all.json'' [])
        \<lparr>rq_cf := Some [(''asn'', ThrowingGetter)]\<rparr>" AccessorError] throwing_asn
    by (simp add: ev)
  show ?thesis using a b c d throwing_asn by simp
qed

lemma cf_get_safe: "map_of cf n \<noteq> Some ThrowingGetter \<Longrightarrow> \<exists>v. cf_get cf n = Inr v"
  by (simp add: cf_get_def split: option.splits cf_prop.splits)

lemma ipInfo_ok:
  assumes "metadata_readable cf"
  shows "\<exists>info. getAllJson_ipInfo req cf = Inr info \<and> user_agent info = userAgentOf req"
proof -
  have r: "map_of cf ''asn'' \<noteq> Some ThrowingGetter"
    "map_of cf ''asOrganization'' \<noteq> Some ThrowingGetter"
    "map_of cf ''country'' \<noteq> Some ThrowingGetter"
    "map_of cf ''region'' \<noteq> Some ThrowingGetter"
    "map_of cf ''city'' \<noteq> Some ThrowingGetter"
    "map_of cf ''latitude'' \<noteq> Some ThrowingGetter"
    "map_of cf ''longitude'' \<noteq> Some ThrowingGetter"
    "map_of cf ''timezone'' \<noteq> Some ThrowingGetter"
    "map_of cf ''clientAcceptEncoding'' \<noteq> Some ThrowingGetter"
    using assms by (simp_all add: metadata_readable_def metadata_fields_def)
  obtain v1 where v1: "cf_get cf ''asn'' = Inr v1" using cf_get_safe [OF r(1)] by blast
  obtain v2 where v2: "cf_get cf ''asOrganization'' = Inr v2" using cf_get_safe [OF r(2)] by blast
  obtain v3 where v3: "cf_get cf ''country'' = Inr v3" using cf_get_safe [OF r(3)] by blast
  obtain v4 where v4: "cf_get cf ''region'' = Inr v4" using cf_get_safe [OF r(4)] by blast
  obtain v5 where v5: "cf_get cf ''city'' = Inr v5" using cf_get_safe [OF r(5)] by blast
  obtain v6 where v6: "cf_get cf ''latitude'' = Inr v6" using cf_get_safe [OF r(6)] by blast
  obtain v7 where v7: "cf_get cf ''longitude'' = Inr v7" using cf_get_safe [OF r(7)] by blast
  obtain v8 where v8: "cf_get cf ''timezone'' = Inr v8" using cf_get_safe [OF r(8)] by blast
  obtain v9 where v9: "cf_get cf ''clientAcceptEncoding'' = Inr v9"
    using cf_get_safe [OF r(9)] by blast
  show ?thesis
    by (simp add: getAllJson_ipInfo_def Let_def bind_err_def v1 v2 v3 v4 v5 v6 v7 v8 v9)
qed

lemma json_fields_skip:
  "k \<notin> fst ` set kvs \<Longrightarrow> map_of (json_fields kvs @ rest) k = map_of rest k"
  by (induction kvs) (auto split: option.splits)

lemma user_agent_field:
  "json_field (json_of_IPInfo info) ''user_agent'' = Some (JStr (user_agent info))"
proof -
  let ?kvs = "[(''as_org'', as_org info), (''country'', country info),
               (''region'', region info), (''city'', city info),
               (''latitude'', latitude info), (''longitude'', longitude info),
               (''timezone'', timezone info), (''encoding'', encoding info)]"
  have "''user_agent'' \<notin> fst ` set ?kvs" by simp
  from json_fields_skip [OF this, of "[(''user_agent'', JStr (user_agent info))]"]
  show ?thesis by (simp add: json_field_def json_of_IPInfo_def)
qed

lemma userAgentOf_text:
  "userAgentOf req = user_agent_text (hget (rq_headers req) ''User-Agent'')"
  by (simp add: userAgentOf_def user_agent_text_def truthy_def MAX_UA_LEN_def Let_def
      split: option.splits)

lemma getAllJson_user_agent:
  assumes "rq_method req = ''GET''" and "rq_cf req = Some cf" and "metadata_readable cf"
  shows "result_status (getAllJson req) = Some 200
       \<and> result_field (getAllJson req) ''user_agent''
           = Some (JStr (user_agent_text (hget (rq_headers req) ''User-Agent'')))"
proof -
  obtain info where i: "getAllJson_ipInfo req cf = Inr info"
    and u: "user_agent info = userAgentOf req"
    using ipInfo_ok [OF assms(3)] by blast
  have "getAllJson req =
          Inr \<lparr> status = 200, statusText = [], headers = headers_of JSON_HEADERS,
                body = JsonBody (json_of_IPInfo info) \<rparr>"
    using assms(1,2) i
    by (simp add: getAllJson_def getAllJson_try_def bind_err_def successResponse_def
        new_Response_def non_null_def)
  then show ?thesis
    by (simp add: result_field_def user_agent_field u userAgentOf_text)
qed

text \<open>
  C10. For a \<open>GET\<close> request with platform metadata whose properties can be read, the
  metadata route answers 200 and the \<open>user_agent\<close> member of the body is \<open>N/A\<close> when the
  \<open>User-Agent\<close> header is absent or empty, the header when it has at most 512 code units,
  and otherwise its first 512 code units followed by the ellipsis.
\<close>

theorem getAllJson_user_agent_field:
  assumes "rq_method req = ''GET''" and "rq_cf req = Some cf" and "metadata_readable cf"
  shows "result_status (getAllJson req) = Some 200
       \<and> result_field (getAllJson req) ''user_agent''
           = Some (JStr (case hget (rq_headers req) ''User-Agent'' of
                           None \<Rightarrow> ''N/A''
                         | Some ua \<Rightarrow>
                             if ua = [] then ''N/A''
                             else if length ua \<le> 512 then ua
                             else take 512 ua @ ellipsis))"
  using getAllJson_user_agent [OF assms] by (simp add: user_agent_text_def)

lemma sample_cf:
  "rq_method ((sample_request ''GET'' ''/all.json'' hs)\<lparr>rq_cf := Some cf\<rparr>) = ''GET''"
  "rq_cf ((sample_request ''GET'' ''/all.json'' hs)\<lparr>rq_cf := Some cf\<rparr>) = Some cf"
  "rq_headers ((sample_request ''GET'' ''/all.json'' hs)\<lparr>rq_cf := Some cf\<rparr>) = headers_of hs"
  by (simp_all add: sample_request_def)

lemma readable_sample: "metadata_readable [(''asn'', Data (VNum 13335))]"
  by (simp add: metadata_readable_def metadata_fields_def)

theorem getAllJson_user_agent_field_witness:
  "metadata_readable [(''asn'', Data (VNum 13335))]
   \<and> result_status (getAllJson ((sample_request ''GET'' ''/all.json''
        [(''User-Agent'', ''curl/8.0'')])\<lparr>rq_cf := Some [(''asn'', Data (VNum 13335))]\<rparr>))
       = Some 200
   \<and> result_field (getAllJson ((sample_request ''GET'' ''/all.json''
        [(''User-Agent'', ''curl/8.0'')])\<lparr>rq_cf := Some [(''asn'', Data (VNum 13335))]\<rparr>))
        ''user_agent'' = Some (JStr ''curl/8.0'')
   \<and> result_field (getAllJson ((sample_request ''GET'' ''/all.json'' [])
        \<lparr>rq_cf := Some [(''asn'', Data (VNum 13335))]\<rparr>)) ''user_agent''
       = Some (JStr ''N/A'')
   \<and> result_field (getAllJson ((sample_request ''GET'' ''/all.json''
        [(''User-Agent'', replicate 513 CHR ''a'')])
        \<lparr>rq_cf := Some [(''asn'', Data (VNum 13335))]\<rparr>)) ''user_agent''
       = Some (JStr (replicate 512 CHR ''a'' @ ellipsis))"
proof -
  note hs = sample_cf(3) headers_of_def hget_def hset_def
  have a: "result_status (getAllJson ((sample_request ''GET'' ''/all.json''
        [(''User-Agent'', ''curl/8.0'')])\<lparr>rq_cf := Some [(''asn'', Data (VNum 13335))]\<rparr>))
       = Some 200
     \<and> result_field (getAllJson ((sample_request ''GET'' ''/all.json''
        [(''User-Agent'', ''curl/8.0'')])\<lparr>rq_cf := Some [(''asn'', Data (VNum 13335))]\<rparr>))
        ''user_agent'' = Some (JStr ''curl/8.0'')"
    using getAllJson_user_agent_field [OF sample_cf(1) sample_cf(2) readable_sample,
        of "[(''User-Agent'', ''curl/8.0'')]"]
    by (simp add: hs)
  have b: "result_field (getAllJson ((sample_request ''GET'' ''/all.json'' [])
        \<lparr>rq_cf := Some [(''asn'', Data (VNum 13335))]\<rparr>)) ''user_agent''
       = Some (JStr ''N/A'')"
    using getAllJson_user_agent_field [OF sample_cf(1) sample_cf(2) readable_sample, of "[]"]
    by (simp add: hs)
  have c: "result_field (getAllJson ((sample_request ''GET'' ''/all.json''
        [(''User-Agent'', replicate 513 CHR ''a'')])
        \<lparr>rq_cf := Some [(''asn'', Data (VNum 13335))]\<rparr>)) ''user_agent''
       = Some (JStr (replicate 512 CHR ''a'' @ ellipsis))"
    using getAllJson_user_agent_field [OF sample_cf(1) sample_cf(2) readable_sample,
        of "[(''User-Agent'', replicate 513 CHR ''a'')]"]
    by (simp add: hs)
  show ?thesis using a b c readable_sample by simp
qed

text \<open>
  The claim as first worded gives the header itself whenever it has at most 512 code
  units. An empty \<open>User-Agent\<close> header has none, and the member is \<open>N/A\<close>.
\<close>

theorem getAllJson_empty_user_agent_counterexample:
  "hget (rq_headers ((sample_request ''GET'' ''/all.json'' [(''User-Agent'', [])])
        \<lparr>rq_cf := Some [(''asn'', Data (VNum 13335))]\<rparr>)) ''User-Agent'' = Some []
   \<and> length ([] :: string) \<le> 512
   \<and> result_status (getAllJson ((sample_request ''GET'' ''/all.json'' [(''User-Agent'', [])])
        \<lparr>rq_cf := Some [(''asn'', Data (VNum 13335))]\<rparr>)) = Some 200
   \<and> result_field (getAllJson ((sample_request ''GET'' ''/all.json'' [(''User-Agent'', [])])
        \<lparr>rq_cf := Some [(''asn'', Data (VNum 13335))]\<rparr>)) ''user_agent''
       = Some (JStr ''N/A'')"
  using getAllJson_user_agent [OF sample_cf(1) sample_cf(2) readable_sample,
      of "[(''User-Agent'', [])]"]
  by (simp add: sample_cf(3) headers_of_def hget_def hset_def user_agent_text_def)

end
